theory Spec2Isabelle
  imports Complex_Main
begin

section \<open>Python values used by the mail bridge\<close>

text \<open>
  A Python \<open>str\<close> is modelled as a \<open>string\<close> whose characters are read as the code points
  0 to 255; the helpers below follow the Python built-ins on that range. The fixed labels
  of the notification template that lie outside it (emoji, Cyrillic words) are given by
  their UTF-8 bytes: the code only concatenates them, it never measures or slices them.
  Exceptions are values: every function of the source that can raise returns
  \<open>pyexc + 'a\<close>, with \<open>Inl\<close> the raised exception. Only subclasses of \<open>Exception\<close>
  are modelled, the ones an \<open>except Exception\<close> clause catches.
\<close>

datatype exc_kind =
  IndexError | AttributeError | ValueError | TypeError
  | NoAnswer | NXDOMAIN | ConnectionError | OtherError

datatype pyexc = PyExc exc_kind string

fun exc_str :: "pyexc \<Rightarrow> string" where
  "exc_str (PyExc k msg) = msg"

fun exc_class :: "pyexc \<Rightarrow> exc_kind" where
  "exc_class (PyExc k msg) = k"

definition py_isspace :: "char \<Rightarrow> bool" where
  "py_isspace c = (let n = (of_char c :: nat) in
     (9 \<le> n \<and> n \<le> 13) \<or> (28 \<le> n \<and> n \<le> 32) \<or> n = 133 \<or> n = 160)"

definition py_lower_char :: "char \<Rightarrow> char" where
  "py_lower_char c = (let n = (of_char c :: nat) in
     if (65 \<le> n \<and> n \<le> 90) \<or> (192 \<le> n \<and> n \<le> 222 \<and> n \<noteq> 215)
     then char_of (n + 32) else c)"

definition py_lower :: "string \<Rightarrow> string" where
  "py_lower s = map py_lower_char s"

definition py_strip :: "string \<Rightarrow> string" where
  "py_strip s = rev (dropWhile py_isspace (rev (dropWhile py_isspace s)))"

text \<open>\<open>s.split(sep)\<close> for a one-character separator: never empty, one more piece than
  there are separators.\<close>

fun py_split :: "char \<Rightarrow> string \<Rightarrow> string list" where
  "py_split sep [] = [[]]"
| "py_split sep (c # cs) =
     (if c = sep then [] # py_split sep cs
      else (case py_split sep cs of
              [] \<Rightarrow> [[c]]
            | w # ws \<Rightarrow> (c # w) # ws))"

text \<open>\<open>xs[:n]\<close>: a negative bound counts from the end.\<close>

definition py_prefix :: "int \<Rightarrow> 'a list \<Rightarrow> 'a list" where
  "py_prefix n xs = (if n < 0 then take (nat (int (length xs) + n)) xs else take (nat n) xs)"

section \<open>Metadata extraction: \<open>AdvancedSMTPHandler._extract_domain\<close>\<close>

text \<open>
  \<^verbatim>\<open>if '@' in email_address: return email_address.split('@')[1].strip().lower()\<close>
  \<^verbatim>\<open>return 'unknown'\<close>
  The index \<open>[1]\<close> raises IndexError when the split has fewer than two pieces.
\<close>

definition extract_domain :: "string \<Rightarrow> pyexc + string" where
  "extract_domain email_address =
     (if CHR ''@'' \<in> set email_address then
        (case py_split CHR ''@'' email_address of
           _ # d # _ \<Rightarrow> Inr (py_lower (py_strip d))
         | _ \<Rightarrow> Inl (PyExc IndexError ''list index out of range''))
      else Inr ''unknown'')"

text \<open>The claim's reading of the domain: everything after the first \<open>@\<close>, lower-cased.\<close>

definition after_first_at :: "string \<Rightarrow> string" where
  "after_first_at s = tl (dropWhile (\<lambda>c. c \<noteq> CHR ''@'') s)"

definition spec_domain :: "string \<Rightarrow> string" where
  "spec_domain s = (if CHR ''@'' \<in> set s then py_lower (after_first_at s) else ''unknown'')"

section \<open>Domain DNS validator: \<open>DNSSystemValidator\<close>\<close>

text \<open>
  The DNS library is an external collaborator: for a name and a record type it returns
  typed records or raises. It is a record of oracles, one per record type, each
  giving what \<open>self.resolver.resolve(name, type)\<close> yields: the texts the code reads from
  the answer (\<open>str(rdata)\<close>, \<open>rdata.preference\<close>, ...) or the exception raised.
\<close>

record soa_rdata =
  soa_mname :: string
  soa_rname :: string
  soa_serial :: nat
  soa_refresh :: nat
  soa_retry :: nat
  soa_expire :: nat
  soa_minimum :: nat

record dns_resolver =
  resolve_MX :: "string \<Rightarrow> pyexc + (nat option \<times> (nat \<times> string) list)"
  resolve_TXT :: "string \<Rightarrow> pyexc + string list"
  resolve_NS :: "string \<Rightarrow> pyexc + string list"
  resolve_SOA :: "string \<Rightarrow> pyexc + soa_rdata list"
  resolve_A :: "string \<Rightarrow> pyexc + string list"
  resolve_PTR :: "string \<Rightarrow> pyexc + string list"

text \<open>The dictionaries the validator builds. A key that is only set later
  (\<open>mx['resolved']\<close>, \<open>a_record['ptr']\<close>) is an option, \<open>None\<close> while absent.\<close>

record mx_record =
  priority :: nat
  mx_host :: string
  ttl :: "nat option"
  resolved :: "bool option"

record a_record =
  a_host :: string
  ip :: string
  ptr :: "string list option"

record soa_record_dict =
  mname :: string
  rname :: string
  serial :: nat
  refresh :: nat
  retry :: nat
  expire :: nat
  minimum :: nat

record dns_report =
  domain :: string
  timestamp :: string
  mx_records :: "mx_record list"
  txt_records :: "string list"
  a_records :: "a_record list"
  ns_records :: "string list"
  soa_record :: "soa_record_dict option"
  has_mx :: bool
  errors :: "string list"

definition py_rstrip_char :: "char \<Rightarrow> string \<Rightarrow> string" where
  "py_rstrip_char c s = rev (dropWhile (\<lambda>x. x = c) (rev s))"

definition py_strip_char :: "char \<Rightarrow> string \<Rightarrow> string" where
  "py_strip_char c s = rev (dropWhile (\<lambda>x. x = c) (rev (dropWhile (\<lambda>x. x = c) s)))"

fun py_join :: "string \<Rightarrow> string list \<Rightarrow> string" where
  "py_join sep [] = []"
| "py_join sep [x] = x"
| "py_join sep (x # y # ys) = x @ sep @ py_join sep (y # ys)"

text \<open>\<open>_get_mx_records\<close>: NoAnswer and NXDOMAIN give the empty list, every other
  exception is logged and raised again.\<close>

definition get_mx_records :: "dns_resolver \<Rightarrow> string \<Rightarrow> pyexc + mx_record list" where
  "get_mx_records r d =
     (case resolve_MX r d of
        Inr (rrset_ttl, answers) \<Rightarrow>
          Inr (map (\<lambda>(preference, exchange).
                 \<lparr>priority = preference,
                  mx_host = py_rstrip_char CHR ''.'' exchange,
                  ttl = rrset_ttl,
                  resolved = None\<rparr>) answers)
      | Inl e \<Rightarrow>
          (if exc_class e = NoAnswer \<or> exc_class e = NXDOMAIN then Inr [] else Inl e))"

text \<open>The other helpers catch every exception themselves.\<close>

definition get_txt_records :: "dns_resolver \<Rightarrow> string \<Rightarrow> string list" where
  "get_txt_records r d =
     (case resolve_TXT r d of
        Inr answers \<Rightarrow> map (py_strip_char CHR 0x22) answers
      | Inl e \<Rightarrow> [])"

definition get_a_records :: "dns_resolver \<Rightarrow> string \<Rightarrow> a_record list" where
  "get_a_records r hostname =
     (case resolve_A r hostname of
        Inr answers \<Rightarrow> map (\<lambda>rdata. \<lparr>a_host = hostname, ip = rdata, ptr = None\<rparr>) answers
      | Inl e \<Rightarrow> [])"

definition get_ns_records :: "dns_resolver \<Rightarrow> string \<Rightarrow> string list" where
  "get_ns_records r d =
     (case resolve_NS r d of
        Inr answers \<Rightarrow> map (py_rstrip_char CHR ''.'') answers
      | Inl e \<Rightarrow> [])"

definition get_soa_record :: "dns_resolver \<Rightarrow> string \<Rightarrow> soa_record_dict option" where
  "get_soa_record r d =
     (case resolve_SOA r d of
        Inr (soa # _) \<Rightarrow>
          Some \<lparr>mname = py_rstrip_char CHR ''.'' (soa_mname soa),
                rname = py_rstrip_char CHR ''.'' (soa_rname soa),
                serial = soa_serial soa,
                refresh = soa_refresh soa,
                retry = soa_retry soa,
                expire = soa_expire soa,
                minimum = soa_minimum soa\<rparr>
      | Inr [] \<Rightarrow> None
      | Inl e \<Rightarrow> None)"

definition ptr_query :: "string \<Rightarrow> string" where
  "ptr_query addr =
     (if CHR '':'' \<in> set addr
      then py_join ''.'' (rev (py_split CHR '':'' addr)) @ ''.ip6.arpa''
      else py_join ''.'' (rev (py_split CHR ''.'' addr)) @ ''.in-addr.arpa'')"

definition get_ptr_records :: "dns_resolver \<Rightarrow> string \<Rightarrow> string list" where
  "get_ptr_records r addr =
     (case resolve_PTR r (ptr_query addr) of
        Inr answers \<Rightarrow> map (py_rstrip_char CHR ''.'') answers
      | Inl e \<Rightarrow> [])"

text \<open>
  \<^verbatim>\<open>for mx in report['mx_records']:\<close>
  \<^verbatim>\<open>    a_records = await self._get_a_records(mx['host'])\<close>
  \<^verbatim>\<open>    report['a_records'].extend(a_records)\<close>
  \<^verbatim>\<open>    mx['resolved'] = len(a_records) > 0\<close>
  The loop returns the MX entries with their \<open>resolved\<close> key and the grown A list.
\<close>

fun resolve_mx_hosts ::
  "dns_resolver \<Rightarrow> mx_record list \<Rightarrow> a_record list \<Rightarrow> mx_record list \<times> a_record list" where
  "resolve_mx_hosts r [] acc = ([], acc)"
| "resolve_mx_hosts r (mx # rest) acc =
     (let found = get_a_records r (mx_host mx);
          (rest', acc') = resolve_mx_hosts r rest (acc @ found)
      in (mx\<lparr>resolved := Some (length found > 0)\<rparr> # rest', acc'))"

text \<open>\<^verbatim>\<open>for a_record in report['a_records'][:3]: a_record['ptr'] = ...\<close>\<close>

definition resolve_ptrs :: "dns_resolver \<Rightarrow> a_record list \<Rightarrow> a_record list" where
  "resolve_ptrs r recs =
     map (\<lambda>a. a\<lparr>ptr := Some (get_ptr_records r (ip a))\<rparr>) (take 3 recs) @ drop 3 recs"

definition initial_report :: "string \<Rightarrow> string \<Rightarrow> dns_report" where
  "initial_report target now_iso =
     \<lparr>domain = target, timestamp = now_iso, mx_records = [], txt_records = [],
      a_records = [], ns_records = [], soa_record = None, has_mx = False, errors = []\<rparr>"

text \<open>The body of the \<open>try\<close> block. The report is a mutable dictionary, so an exception
  leaves the fields assigned so far in place: a raise carries the report as it is then.\<close>

definition validate_body ::
  "dns_resolver \<Rightarrow> string \<Rightarrow> dns_report \<Rightarrow> (pyexc \<times> dns_report) + dns_report" where
  "validate_body r target report =
     (case get_mx_records r target of
        Inl e \<Rightarrow> Inl (e, report)
      | Inr mx \<Rightarrow>
          (let report = report\<lparr>mx_records := mx\<rparr>;
               report = report\<lparr>has_mx := length (mx_records report) > 0\<rparr>;
               report = report\<lparr>txt_records := get_txt_records r target\<rparr>;
               report = report\<lparr>ns_records := get_ns_records r target\<rparr>;
               report = report\<lparr>soa_record := get_soa_record r target\<rparr>;
               (mx', found) = resolve_mx_hosts r (mx_records report) (a_records report);
               report = report\<lparr>mx_records := mx', a_records := found\<rparr>;
               report = report\<lparr>a_records := resolve_ptrs r (a_records report)\<rparr>
           in Inr report))"

text \<open>The literal \<open>"Critical error: "\<close> of the source, in Russian, as UTF-8 bytes.\<close>

definition critical_prefix :: string where
  "critical_prefix =
     [CHR 0xD0, CHR 0x9A, CHR 0xD1, CHR 0x80, CHR 0xD0, CHR 0xB8, CHR 0xD1, CHR 0x82,
      CHR 0xD0, CHR 0xB8, CHR 0xD1, CHR 0x87, CHR 0xD0, CHR 0xB5, CHR 0xD1, CHR 0x81,
      CHR 0xD0, CHR 0xBA, CHR 0xD0, CHR 0xB0, CHR 0xD1, CHR 0x8F, CHR 0x20, CHR 0xD0,
      CHR 0xBE, CHR 0xD1, CHR 0x88, CHR 0xD0, CHR 0xB8, CHR 0xD0, CHR 0xB1, CHR 0xD0,
      CHR 0xBA, CHR 0xD0, CHR 0xB0, CHR 0x3A, CHR 0x20]"

text \<open>\<^verbatim>\<open>target = domain or self.config.get('target_domain', 't.me')\<close>: \<open>None\<close> and the
  empty string both fall through to the configured default.\<close>

definition validation_target :: "string option \<Rightarrow> string option \<Rightarrow> string" where
  "validation_target config_target_domain d =
     (case d of
        Some name \<Rightarrow> if name \<noteq> [] then name
                      else (case config_target_domain of Some t \<Rightarrow> t | None \<Rightarrow> ''t.me'')
      | None \<Rightarrow> (case config_target_domain of Some t \<Rightarrow> t | None \<Rightarrow> ''t.me''))"

text \<open>\<open>validate_domain_mx\<close>. \<open>now_iso\<close> is \<open>datetime.utcnow().isoformat()\<close>. The result
  type allows a raise, so that "never raises" is a statement about the function.\<close>

definition validate_domain_mx ::
  "dns_resolver \<Rightarrow> string option \<Rightarrow> string \<Rightarrow> string option \<Rightarrow> pyexc + dns_report" where
  "validate_domain_mx r config_target_domain now_iso d =
     (let target = validation_target config_target_domain d;
          report = initial_report target now_iso
      in case validate_body r target report of
           Inr report' \<Rightarrow> Inr report'
         | Inl (e, report') \<Rightarrow>
             Inr (report'\<lparr>errors := errors report' @ [critical_prefix @ exc_str e]\<rparr>))"





definition nxdomain_resolver :: dns_resolver where
  "nxdomain_resolver =
     \<lparr>resolve_MX = (\<lambda>n. Inl (PyExc NXDOMAIN ''no such domain'')),
      resolve_TXT = (\<lambda>n. Inl (PyExc NXDOMAIN ''no such domain'')),
      resolve_NS = (\<lambda>n. Inl (PyExc NXDOMAIN ''no such domain'')),
      resolve_SOA = (\<lambda>n. Inl (PyExc NXDOMAIN ''no such domain'')),
      resolve_A = (\<lambda>n. Inl (PyExc NXDOMAIN ''no such domain'')),
      resolve_PTR = (\<lambda>n. Inl (PyExc NXDOMAIN ''no such domain''))\<rparr>"

section \<open>Parsed messages and metadata\<close>

text \<open>
  The message object of Python's \<open>email\<close> package, as far as the code reads it. With
  \<open>policy=default\<close> a header is parsed when it is read, and a malformed one raises then;
  so every read is a value or an exception: the header items in order with what reading
  each value yields, what \<open>get_content_type()\<close>, \<open>get_content()\<close> and
  \<open>get_payload(decode=True)\<close> yield, and the sub-parts when \<open>is_multipart()\<close>.
\<close>

type_synonym bytes = string

datatype email_msg =
  Email (msg_items: "(string \<times> (pyexc + string)) list")
        (get_content_type: "pyexc + string")
        (get_content: "pyexc + string")
        (get_payload_decoded: "pyexc + bytes option")
        (subparts: "email_msg list option")

definition is_multipart :: "email_msg \<Rightarrow> bool" where
  "is_multipart m = (subparts m \<noteq> None)"

text \<open>Sequencing of calls that can raise: the first exception ends the computation.\<close>

definition bind_exc :: "pyexc + 'a \<Rightarrow> ('a \<Rightarrow> pyexc + 'b) \<Rightarrow> pyexc + 'b" where
  "bind_exc r f = (case r of Inl e \<Rightarrow> Inl e | Inr v \<Rightarrow> f v)"

text \<open>\<open>email_msg.get(name, default)\<close>: the first header with that name, compared without
  regard to case; only that header is parsed.\<close>

fun msg_get :: "(string \<times> (pyexc + string)) list \<Rightarrow> string \<Rightarrow> string \<Rightarrow> pyexc + string" where
  "msg_get [] name dflt = Inr dflt"
| "msg_get ((k, v) # rest) name dflt =
     (if py_lower k = py_lower name then v else msg_get rest name dflt)"

text \<open>\<open>email_msg.items()\<close> parses every header in order; \<open>dict(...)\<close> of the items keeps
  the last value of a repeated header.\<close>

fun read_items :: "(string \<times> (pyexc + string)) list \<Rightarrow> pyexc + (string \<times> string) list" where
  "read_items [] = Inr []"
| "read_items ((k, v) # rest) =
     (case v of
        Inl e \<Rightarrow> Inl e
      | Inr s \<Rightarrow> (case read_items rest of
                     Inl e \<Rightarrow> Inl e
                   | Inr kvs \<Rightarrow> Inr ((k, s) # kvs)))"

definition items_dict :: "email_msg \<Rightarrow> pyexc + (string \<rightharpoonup> string)" where
  "items_dict email = bind_exc (read_items (msg_items email)) (\<lambda>kvs. Inr (map_of (rev kvs)))"

text \<open>\<open>walk()\<close>: the message itself, then its sub-parts, depth first.\<close>

fun walk :: "email_msg \<Rightarrow> email_msg list" where
  "walk (Email items ct content decoded subs) =
     Email items ct content decoded subs
       # (case subs of None \<Rightarrow> [] | Some ps \<Rightarrow> concat (map walk ps))"

text \<open>The report attached to the metadata: the validator's report, or the fallback
  dictionary \<open>{'domain': ..., 'error': 'Validator not available'}\<close>.\<close>

datatype dns_info = Report dns_report | NoValidator string string

record metadata =
  message_id :: string
  from_addr :: string
  to_addr :: string
  cc :: string
  bcc :: string
  subject :: string
  date :: string
  recipient_domain :: string
  received_at :: string
  headers :: "string \<rightharpoonup> string"
  dns_report :: "dns_info option"

section \<open>Message store: \<open>RedisStorage\<close>\<close>

text \<open>
  The key-value store is modelled by the commands the code sends. String keys hold a value
  and the instant at which they expire; set keys hold their members, without repetition
  (the list is only a representation, its order means nothing); the sorted set holds
  members with scores. The three kinds of key have distinct prefixes in the code, so they
  are kept in three maps. Time is a real number of seconds since the epoch: \<open>now\<close> stands
  for \<open>datetime.utcnow().timestamp()\<close> and for the store's own clock during one call.
  \<open>online\<close> is the fault model: while it is false every command raises a connection
  error.
\<close>

datatype stored_value = Pickled bytes | Json metadata

record redis_db =
  strings :: "string \<rightharpoonup> (stored_value \<times> real)"
  sets :: "string \<rightharpoonup> string list"
  zsets :: "string \<rightharpoonup> (string \<times> real) list"
  online :: bool

datatype redis_cmd =
  SETEX string int stored_value
  | SADD string string
  | ZADD string string real
  | GET string

datatype redis_reply = ReplyOK | ReplyInt nat | ReplyBulk "stored_value option"

definition connection_error :: pyexc where
  "connection_error = PyExc ConnectionError ''Error connecting to redis''"

definition redis_get :: "real \<Rightarrow> redis_db \<Rightarrow> string \<Rightarrow> stored_value option" where
  "redis_get now db k =
     (case strings db k of
        None \<Rightarrow> None
      | Some (v, expires) \<Rightarrow> if now < expires then Some v else None)"

fun zadd_entry :: "string \<Rightarrow> real \<Rightarrow> (string \<times> real) list \<Rightarrow> (string \<times> real) list" where
  "zadd_entry m s [] = [(m, s)]"
| "zadd_entry m s ((m', s') # rest) =
     (if m' = m then (m, s) # rest else (m', s') # zadd_entry m s rest)"

fun run_cmd :: "real \<Rightarrow> redis_db \<Rightarrow> redis_cmd \<Rightarrow> (pyexc + redis_reply) \<times> redis_db" where
  "run_cmd now db (SETEX k seconds v) =
     (if seconds \<le> 0 then (Inl (PyExc OtherError ''invalid expire time in setex''), db)
      else (Inr ReplyOK, db\<lparr>strings := (strings db)(k \<mapsto> (v, now + real_of_int seconds))\<rparr>))"
| "run_cmd now db (SADD k m) =
     (let members = (case sets db k of None \<Rightarrow> [] | Some ms \<Rightarrow> ms)
      in if m \<in> set members then (Inr (ReplyInt 0), db)
         else (Inr (ReplyInt 1), db\<lparr>sets := (sets db)(k \<mapsto> members @ [m])\<rparr>))"
| "run_cmd now db (ZADD k m s) =
     (let entries = (case zsets db k of None \<Rightarrow> [] | Some es \<Rightarrow> es)
      in (Inr (ReplyInt (if m \<in> fst ` set entries then 0 else 1)),
          db\<lparr>zsets := (zsets db)(k \<mapsto> zadd_entry m s entries)\<rparr>))"
| "run_cmd now db (GET k) = (Inr (ReplyBulk (redis_get now db k)), db)"

fun run_cmds ::
  "real \<Rightarrow> redis_db \<Rightarrow> redis_cmd list \<Rightarrow> (pyexc + redis_reply) list \<times> redis_db" where
  "run_cmds now db [] = ([], db)"
| "run_cmds now db (c # cs) =
     (let (r, db') = run_cmd now db c;
          (rs, db'') = run_cmds now db' cs
      in (r # rs, db''))"

fun first_error :: "(pyexc + 'a) list \<Rightarrow> pyexc option" where
  "first_error [] = None"
| "first_error (Inl e # rs) = Some e"
| "first_error (Inr v # rs) = first_error rs"

fun reply_values :: "(pyexc + 'a) list \<Rightarrow> 'a list" where
  "reply_values [] = []"
| "reply_values (Inl e # rs) = reply_values rs"
| "reply_values (Inr v # rs) = v # reply_values rs"

text \<open>\<open>await pipeline.execute()\<close>: the queued commands run as one transaction; a
  command that fails does not undo the others, and the first failure is raised after all
  of them have run. Without a connection nothing runs.\<close>

definition pipeline_execute ::
  "real \<Rightarrow> redis_db \<Rightarrow> redis_cmd list \<Rightarrow> (pyexc + redis_reply list) \<times> redis_db" where
  "pipeline_execute now db cmds =
     (if \<not> online db then (Inl connection_error, db)
      else (let (rs, db') = run_cmds now db cmds
            in case first_error rs of
                 Some e \<Rightarrow> (Inl e, db')
               | None \<Rightarrow> (Inr (reply_values rs), db')))"

text \<open>Members of a sorted set are ordered by score and, at equal scores, as byte
  strings.\<close>

fun bytes_le :: "string \<Rightarrow> string \<Rightarrow> bool" where
  "bytes_le [] ys = True"
| "bytes_le (x # xs) [] = False"
| "bytes_le (x # xs) (y # ys) =
     (if x = y then bytes_le xs ys else (of_char x :: nat) < of_char y)"

definition zset_le :: "string \<times> real \<Rightarrow> string \<times> real \<Rightarrow> bool" where
  "zset_le a b = (snd a < snd b \<or> (snd a = snd b \<and> bytes_le (fst a) (fst b)))"

fun zinsert :: "string \<times> real \<Rightarrow> (string \<times> real) list \<Rightarrow> (string \<times> real) list" where
  "zinsert e [] = [e]"
| "zinsert e (x # xs) = (if zset_le x e then e # x # xs else x # zinsert e xs)"

definition zrev_order :: "(string \<times> real) list \<Rightarrow> (string \<times> real) list" where
  "zrev_order entries = foldr zinsert entries []"

text \<open>The index arithmetic of \<open>ZRANGE\<close> and \<open>ZREVRANGE\<close>: both bounds are inclusive and
  a negative bound counts from the end.\<close>

definition zrange_slice :: "int \<Rightarrow> int \<Rightarrow> 'a list \<Rightarrow> 'a list" where
  "zrange_slice start stop xs =
     (let n = int (length xs);
          s = (if start < 0 then n + start else start);
          e = (if stop < 0 then n + stop else stop);
          s = (if s < 0 then 0 else s)
      in if s > e \<or> s \<ge> n then []
         else take (nat (min e (n - 1) - s + 1)) (drop (nat s) xs))"

definition zrevrange :: "redis_db \<Rightarrow> string \<Rightarrow> int \<Rightarrow> int \<Rightarrow> pyexc + string list" where
  "zrevrange db k start stop =
     (if \<not> online db then Inl connection_error
      else Inr (map fst (zrange_slice start stop
                  (zrev_order (case zsets db k of None \<Rightarrow> [] | Some es \<Rightarrow> es)))))"

definition smembers :: "redis_db \<Rightarrow> string \<Rightarrow> pyexc + string list" where
  "smembers db k =
     (if \<not> online db then Inl connection_error
      else Inr (case sets db k of None \<Rightarrow> [] | Some ms \<Rightarrow> ms))"

definition zremrangebyscore :: "redis_db \<Rightarrow> string \<Rightarrow> real \<Rightarrow> real \<Rightarrow> pyexc + redis_db" where
  "zremrangebyscore db k lo hi =
     (if \<not> online db then Inl connection_error
      else Inr (case zsets db k of
                  None \<Rightarrow> db
                | Some es \<Rightarrow>
                    db\<lparr>zsets := (zsets db)(k \<mapsto> filter (\<lambda>(m, s). \<not> (lo \<le> s \<and> s \<le> hi)) es)\<rparr>))"

text \<open>The storage object: \<open>self.redis\<close> is \<open>None\<close> until \<open>connect()\<close> has run, and then
  every method call on it raises AttributeError. \<open>SMEMBERS\<close> arrives as a Python set;
  \<open>set_iteration\<close> is the order in which the interpreter lists such a set in
  \<open>list(email_ids)\<close>, a rearrangement of the members that its hashing fixes and that
  nothing in the code controls.\<close>

record redis_storage =
  redis :: "redis_db option"
  message_ttl :: int
  set_iteration :: "string list \<Rightarrow> string list"

definition attribute_error :: pyexc where
  "attribute_error = PyExc AttributeError ''NoneType object has no attribute''"

text \<open>\<open>_cleanup_old_indexes\<close>: catches and logs its own failure.\<close>

definition cleanup_old_indexes :: "int \<Rightarrow> real \<Rightarrow> redis_db \<Rightarrow> redis_db" where
  "cleanup_old_indexes seconds now db =
     (let cutoff = now - real_of_int seconds
      in case zremrangebyscore db ''index:timestamp'' 0 cutoff of
           Inr db' \<Rightarrow> db'
         | Inl e \<Rightarrow> db)"

text \<open>\<open>store_email\<close>: every exception ends in \<open>return False\<close>. The metadata built by the
  handler always has a \<open>recipient_domain\<close>, so the default of \<open>metadata.get\<close> is not
  needed.\<close>

definition store_email ::
  "redis_storage \<Rightarrow> real \<Rightarrow> string \<Rightarrow> bytes \<Rightarrow> metadata \<Rightarrow> bool \<times> redis_storage" where
  "store_email self now email_id raw_email meta =
     (case redis self of
        None \<Rightarrow> (False, self)
      | Some db \<Rightarrow>
          (case pipeline_execute now db
                  [SETEX (''email:raw:'' @ email_id) (message_ttl self) (Pickled raw_email),
                   SETEX (''email:meta:'' @ email_id) (message_ttl self) (Json meta),
                   SADD (''index:domain:'' @ recipient_domain meta) email_id,
                   ZADD ''index:timestamp'' email_id now] of
             (Inl e, db') \<Rightarrow> (False, self\<lparr>redis := Some db'\<rparr>)
           | (Inr replies, db') \<Rightarrow>
               (True, self\<lparr>redis := Some (cleanup_old_indexes (message_ttl self) now db')\<rparr>)))"

text \<open>\<open>_parse_email_structure\<close>: the classification of the MIME parts.\<close>

record part_info =
  part_content_type :: string
  part_content_disposition :: string
  part_size :: nat

record email_structure =
  structure_headers :: "string \<rightharpoonup> string"
  parts :: "part_info list"
  attachments :: "part_info list"
  body_plain :: "bytes option"
  body_html :: "bytes option"

text \<open>\<open>needle in haystack\<close> for strings.\<close>

fun py_contains :: "string \<Rightarrow> string \<Rightarrow> bool" where
  "py_contains needle [] = (needle = [])"
| "py_contains needle (c # cs) =
     (take (length needle) (c # cs) = needle \<or> py_contains needle cs)"

text \<open>
  One turn of the loop over \<open>walk()\<close>. The reads of the content type, of the
  \<open>Content-Disposition\<close> header (\<open>str(None)\<close> when there is none) and of the decoded payload
  can each raise.
\<close>

definition classify_part :: "email_msg \<Rightarrow> email_structure \<Rightarrow> pyexc + email_structure" where
  "classify_part part structure =
     bind_exc (get_content_type part) (\<lambda>content_type.
     bind_exc (msg_get (msg_items part) ''Content-Disposition'' ''None'') (\<lambda>content_disposition.
     bind_exc (get_payload_decoded part) (\<lambda>decoded.
       (let info = \<lparr>part_content_type = content_type,
                    part_content_disposition = content_disposition,
                    part_size = (case decoded of None \<Rightarrow> 0 | Some b \<Rightarrow> length b)\<rparr>
        in if py_contains ''attachment'' content_disposition
           then Inr (structure\<lparr>attachments := attachments structure @ [info]\<rparr>)
           else if content_type = ''text/plain''
           then Inr (structure\<lparr>body_plain := decoded\<rparr>)
           else if content_type = ''text/html''
           then Inr (structure\<lparr>body_html := decoded\<rparr>)
           else Inr (structure\<lparr>parts := parts structure @ [info]\<rparr>)))))"

fun classify_parts :: "email_msg list \<Rightarrow> email_structure \<Rightarrow> pyexc + email_structure" where
  "classify_parts [] structure = Inr structure"
| "classify_parts (part # rest) structure =
     (case classify_part part structure of
        Inl e \<Rightarrow> Inl e
      | Inr structure' \<Rightarrow> classify_parts rest structure')"

definition parse_email_structure :: "email_msg \<Rightarrow> pyexc + email_structure" where
  "parse_email_structure email =
     bind_exc (items_dict email) (\<lambda>hdrs.
       (let structure = \<lparr>structure_headers = hdrs,
                         parts = [], attachments = [], body_plain = None, body_html = None\<rparr>
        in if is_multipart email then classify_parts (walk email) structure
           else bind_exc (get_content_type email) (\<lambda>content_type.
                  if content_type = ''text/plain''
                  then bind_exc (get_payload_decoded email)
                         (\<lambda>decoded. Inr (structure\<lparr>body_plain := decoded\<rparr>))
                  else if content_type = ''text/html''
                  then bind_exc (get_payload_decoded email)
                         (\<lambda>decoded. Inr (structure\<lparr>body_html := decoded\<rparr>))
                  else Inr structure)))"

record email_data =
  raw :: bytes
  message :: email_msg
  retrieved_metadata :: metadata
  parsed :: email_structure

text \<open>\<open>retrieve_email\<close>: \<open>None\<close> when a key is missing or expired, and when anything
  raises: the parser \<open>message_from_bytes(_, policy=default)\<close>, for which \<open>parser\<close>
  stands, or \<open>_parse_email_structure\<close> on a malformed header. A value of the wrong kind
  under a key makes \<open>pickle.loads\<close> or \<open>json.loads\<close> raise.\<close>

definition retrieve_email ::
  "(bytes \<Rightarrow> pyexc + email_msg) \<Rightarrow> redis_storage \<Rightarrow> real \<Rightarrow> string \<Rightarrow> email_data option" where
  "retrieve_email parser self now email_id =
     (case redis self of
        None \<Rightarrow> None
      | Some db \<Rightarrow>
          (case fst (pipeline_execute now db
                       [GET (''email:raw:'' @ email_id), GET (''email:meta:'' @ email_id)]) of
             Inr [ReplyBulk (Some (Pickled email_bytes)), ReplyBulk (Some (Json meta))] \<Rightarrow>
               (case parser email_bytes of
                  Inr email \<Rightarrow>
                    (case parse_email_structure email of
                       Inr structure \<Rightarrow>
                         Some \<lparr>raw = email_bytes, message = email, retrieved_metadata = meta,
                               parsed = structure\<rparr>
                     | Inl e \<Rightarrow> None)
                | Inl e \<Rightarrow> None)
           | _ \<Rightarrow> None))"

text \<open>The loop of \<open>search_emails\<close>: retrieve every id, keep the ones that are found.\<close>

fun retrieve_all ::
  "(bytes \<Rightarrow> pyexc + email_msg) \<Rightarrow> redis_storage \<Rightarrow> real \<Rightarrow> string list \<Rightarrow> email_data list" where
  "retrieve_all parser self now [] = []"
| "retrieve_all parser self now (email_id # ids) =
     (case retrieve_email parser self now email_id of
        Some email \<Rightarrow> email # retrieve_all parser self now ids
      | None \<Rightarrow> retrieve_all parser self now ids)"

text \<open>\<open>search_emails(domain, limit, offset)\<close>. \<open>if domain:\<close> is false for \<open>None\<close> and
  for the empty string. The members of a domain set are listed as the interpreter
  iterates the set; the range of the sorted set arrives as a list, in the store's order. The ids come back as the bytes the code stored, so decoding them
  does not fail. Every exception ends in \<open>return []\<close>.\<close>

definition search_emails ::
  "(bytes \<Rightarrow> pyexc + email_msg) \<Rightarrow> redis_storage \<Rightarrow> real
     \<Rightarrow> string option \<Rightarrow> int \<Rightarrow> int \<Rightarrow> email_data list" where
  "search_emails parser self now d limit offset =
     (case (case redis self of
              None \<Rightarrow> Inl attribute_error
            | Some db \<Rightarrow>
                (case d of
                   Some name \<Rightarrow>
                     if name \<noteq> []
                     then bind_exc (smembers db (''index:domain:'' @ name))
                            (\<lambda>members. Inr (set_iteration self members))
                     else zrevrange db ''index:timestamp'' offset (offset + limit - 1)
                 | None \<Rightarrow> zrevrange db ''index:timestamp'' offset (offset + limit - 1))) of
        Inl e \<Rightarrow> []
      | Inr email_ids \<Rightarrow> retrieve_all parser self now (py_prefix limit email_ids))"

text \<open>The recency index as \<open>ZREVRANGE\<close> enumerates it: highest score first. Nothing is
  listed without a connection.\<close>

definition recency_entries :: "redis_storage \<Rightarrow> (string \<times> real) list" where
  "recency_entries self =
     (case redis self of
        None \<Rightarrow> []
      | Some db \<Rightarrow>
          if online db
          then zrev_order (case zsets db ''index:timestamp'' of None \<Rightarrow> [] | Some es \<Rightarrow> es)
          else [])"

text \<open>A message whose raw key or metadata key is missing or has expired.\<close>

definition keys_gone :: "redis_storage \<Rightarrow> real \<Rightarrow> string \<Rightarrow> bool" where
  "keys_gone self now email_id =
     (case redis self of
        None \<Rightarrow> True
      | Some db \<Rightarrow> redis_get now db (''email:raw:'' @ email_id) = None
                    \<or> redis_get now db (''email:meta:'' @ email_id) = None)"

text \<open>A store to run the operations on: three messages for \<open>x.com\<close>, stored at the
  epoch seconds 100, 200 and 300 with the default time to live of seven days, under an
  interpreter that happens to list a set in the order in which its members were added.\<close>

definition plain_parser :: "bytes \<Rightarrow> pyexc + email_msg" where
  "plain_parser b = Inr (Email [] (Inr ''text/plain'') (Inr b) (Inr (Some b)) None)"

definition example_metadata :: "string \<Rightarrow> metadata" where
  "example_metadata email_id =
     \<lparr>message_id = email_id, from_addr = ''a@a.com'', to_addr = ''b@x.com'', cc = [], bcc = [],
      subject = ''hello'', date = [], recipient_domain = ''x.com'', received_at = [],
      headers = Map.empty, dns_report = None\<rparr>"

definition empty_storage :: redis_storage where
  "empty_storage =
     \<lparr>redis = Some \<lparr>strings = Map.empty, sets = Map.empty, zsets = Map.empty, online = True\<rparr>,
      message_ttl = 604800,
      set_iteration = (\<lambda>members. members)\<rparr>"

definition three_stored :: redis_storage where
  "three_stored =
     snd (store_email
       (snd (store_email
         (snd (store_email empty_storage 100 ''m1'' ''one'' (example_metadata ''m1'')))
         200 ''m2'' ''two'' (example_metadata ''m2'')))
       300 ''m3'' ''three'' (example_metadata ''m3''))"

definition result_ids :: "email_data list \<Rightarrow> string list" where
  "result_ids emails = map (\<lambda>e. message_id (retrieved_metadata e)) emails"

section \<open>The SMTP handler: \<open>AdvancedSMTPHandler\<close>\<close>

text \<open>The handler's mutable configuration. \<open>default_recipients\<close> is the dictionary with
  the keys \<open>me\<close>, \<open>channel\<close> and \<open>group\<close>; a key holds \<open>None\<close> or an identifier.\<close>

record default_recipients_dict =
  me :: "string option"
  channel :: "string option"
  group :: "string option"

record smtp_handler =
  target_mapping :: "string \<rightharpoonup> string"
  message_counter :: nat
  default_recipients :: default_recipients_dict

text \<open>\<open>__init__\<close>: \<open>target_mapping or {}\<close>, counter 0, notifications to oneself.\<close>

definition init_handler :: "(string \<rightharpoonup> string) option \<Rightarrow> smtp_handler" where
  "init_handler mapping =
     \<lparr>target_mapping = (case mapping of None \<Rightarrow> Map.empty | Some m \<Rightarrow> m),
      message_counter = 0,
      default_recipients = \<lparr>me = Some ''self'', channel = None, group = None\<rparr>\<rparr>"

text \<open>Python's truth value of an optional string: \<open>None\<close> and \<open>''\<close> are false.\<close>

definition py_truthy :: "string option \<Rightarrow> bool" where
  "py_truthy v = (case v of None \<Rightarrow> False | Some s \<Rightarrow> s \<noteq> [])"

subsection \<open>Routing: \<open>_determine_recipient\<close>\<close>

definition determine_recipient :: "smtp_handler \<Rightarrow> metadata \<Rightarrow> string \<times> string" where
  "determine_recipient self meta =
     (case target_mapping self (recipient_domain meta) of
        Some target \<Rightarrow> (''custom'', target)
      | None \<Rightarrow>
          (case channel (default_recipients self) of
             Some c \<Rightarrow>
               if c \<noteq> [] then (''channel'', c)
               else (case group (default_recipients self) of
                       Some g \<Rightarrow> if g \<noteq> [] then (''group'', g) else (''me'', ''self'')
                     | None \<Rightarrow> (''me'', ''self''))
           | None \<Rightarrow>
               (case group (default_recipients self) of
                  Some g \<Rightarrow> if g \<noteq> [] then (''group'', g) else (''me'', ''self'')
                | None \<Rightarrow> (''me'', ''self''))))"

text \<open>
  The routing resolver in the specification's words: a tagged target, and the precedence
  (1) exact match of the recipient domain in the mapping, (2) the active target when it is
  a channel or a group, (3) the fallback \<open>self\<close>. \<open>active_target\<close> reads the active
  target off the dictionary, and \<open>target_pair\<close> is the pair the code returns for a target.
\<close>

datatype routing_target = Self | Channel string | Group string | Custom string

definition spec_resolve ::
  "metadata \<Rightarrow> (string \<rightharpoonup> string) \<Rightarrow> routing_target \<Rightarrow> routing_target" where
  "spec_resolve meta domain_mapping active =
     (case domain_mapping (recipient_domain meta) of
        Some target \<Rightarrow> Custom target
      | None \<Rightarrow>
          (case active of
             Channel c \<Rightarrow> Channel c
           | Group g \<Rightarrow> Group g
           | _ \<Rightarrow> Self))"

definition truthy_id :: "string option \<Rightarrow> string option" where
  "truthy_id v = (case v of None \<Rightarrow> None | Some s \<Rightarrow> if s \<noteq> [] then Some s else None)"

definition active_target :: "default_recipients_dict \<Rightarrow> routing_target" where
  "active_target dr =
     (case truthy_id (channel dr) of
        Some c \<Rightarrow> Channel c
      | None \<Rightarrow> (case truthy_id (group dr) of Some g \<Rightarrow> Group g | None \<Rightarrow> Self))"

fun target_pair :: "routing_target \<Rightarrow> string \<times> string" where
  "target_pair Self = (''me'', ''self'')"
| "target_pair (Channel c) = (''channel'', c)"
| "target_pair (Group g) = (''group'', g)"
| "target_pair (Custom t) = (''custom'', t)"

subsection \<open>The administrative command \<open>/set_target\<close>\<close>

text \<open>\<open>text.split()\<close>: the maximal runs of characters that are not white space.\<close>

fun split_ws_from :: "string \<Rightarrow> string \<Rightarrow> string list" where
  "split_ws_from word [] = (if word = [] then [] else [word])"
| "split_ws_from word (c # cs) =
     (if py_isspace c
      then (if word = [] then split_ws_from [] cs else word # split_ws_from [] cs)
      else split_ws_from (word @ [c]) cs)"

definition py_split_ws :: "string \<Rightarrow> string list" where
  "py_split_ws s = split_ws_from [] s"

text \<open>\<open>repr(s)\<close> of a string of code points below 256: quoted with \<open>'\<close>, or with \<open>"\<close>
  when the string holds a \<open>'\<close> and no \<open>"\<close>; the quote and the backslash are escaped, and
  so is every character that is not printable.\<close>

definition hex_digit :: "nat \<Rightarrow> char" where
  "hex_digit n = (if n < 10 then char_of (48 + n) else char_of (87 + n))"

definition py_repr_char :: "char \<Rightarrow> char \<Rightarrow> string" where
  "py_repr_char quote c =
     (let n = (of_char c :: nat)
      in if c = quote \<or> c = CHR 0x5C then [CHR 0x5C, c]
         else if n = 9 then [CHR 0x5C, CHR ''t'']
         else if n = 10 then [CHR 0x5C, CHR ''n'']
         else if n = 13 then [CHR 0x5C, CHR ''r'']
         else if n < 32 \<or> (127 \<le> n \<and> n \<le> 160) \<or> n = 173
         then [CHR 0x5C, CHR ''x'', hex_digit (n div 16), hex_digit (n mod 16)]
         else [c])"

definition py_repr :: "string \<Rightarrow> string" where
  "py_repr s =
     (let quote = (if CHR 0x27 \<in> set s \<and> CHR 0x22 \<notin> set s then CHR 0x22 else CHR 0x27)
      in [quote] @ concat (map (py_repr_char quote) s) @ [quote])"

text \<open>\<open>int(s)\<close> for a string: surrounding white space, an optional sign, decimal digits
  with single underscores between them; anything else raises ValueError, and so does a
  well-formed literal of more than 4300 digits (the interpreter's default limit).\<close>

definition is_digit :: "char \<Rightarrow> bool" where
  "is_digit c = (48 \<le> (of_char c :: nat) \<and> (of_char c :: nat) \<le> 57)"

fun valid_int_body :: "string \<Rightarrow> bool" where
  "valid_int_body [] = False"
| "valid_int_body [c] = is_digit c"
| "valid_int_body (c # d # rest) =
     (is_digit c \<and> (if d = CHR ''_'' then valid_int_body rest else valid_int_body (d # rest)))"

definition digits_value :: "string \<Rightarrow> int" where
  "digits_value ds = foldl (\<lambda>acc c. acc * 10 + (int (of_char c) - 48)) 0 ds"

text \<open>\<open>str(n)\<close> for a natural number.\<close>

fun py_str_nat :: "nat \<Rightarrow> string" where
  "py_str_nat n =
     (if n < 10 then [char_of (48 + n)]
      else py_str_nat (n div 10) @ [char_of (48 + n mod 10)])"

declare py_str_nat.simps [simp del]

definition py_int :: "string \<Rightarrow> pyexc + int" where
  "py_int s =
     (let t = py_strip s;
          (negative, body) = (case t of
                                c # rest \<Rightarrow> if c = CHR ''-'' then (True, rest)
                                            else if c = CHR ''+'' then (False, rest)
                                            else (False, t)
                              | [] \<Rightarrow> (False, t));
          digits = filter (\<lambda>c. c \<noteq> CHR ''_'') body
      in if \<not> valid_int_body body
         then Inl (PyExc ValueError (''invalid literal for int() with base 10: '' @ py_repr s))
         else if length digits > 4300
         then Inl (PyExc ValueError
                (''Exceeds the limit (4300 digits) for integer string conversion: value has ''
                 @ py_str_nat (length digits)
                 @ '' digits; use sys.set_int_max_str_digits() to increase the limit''))
         else Inr ((if negative then - 1 else 1) * digits_value digits))"

text \<open>The replies of the command, one constructor per message the code sends back.\<close>

datatype reply =
  Usage
  | SetMe
  | NeedId string
  | SetChat string string
  | ChatError string
  | BadCustomFormat
  | SetCustom string string
  | UnknownType

text \<open>
  \<open>set_target_command\<close>. \<open>get_chat\<close> is the messaging client's check that the chat
  exists: it gives the chat's title or raises. The handler object is updated in place, so
  the function returns the new handler with the reply. Replies themselves are taken to be
  delivered.
\<close>

definition set_target_command ::
  "(int \<Rightarrow> pyexc + string) \<Rightarrow> smtp_handler \<Rightarrow> string \<Rightarrow> smtp_handler \<times> reply" where
  "set_target_command get_chat handler msg_text =
     (let args = drop 1 (py_split_ws msg_text)
      in case args of
           [] \<Rightarrow> (handler, Usage)
         | first # rest_args \<Rightarrow>
             (let target_type = py_lower first
              in if target_type = ''me''
                 then (handler\<lparr>default_recipients :=
                          (default_recipients handler)
                            \<lparr>me := Some ''self'', channel := None, group := None\<rparr>\<rparr>, SetMe)
                 else if target_type = ''channel'' \<or> target_type = ''group''
                 then (case rest_args of
                         [] \<Rightarrow> (handler, NeedId target_type)
                       | target_id # _ \<Rightarrow>
                           (case py_int target_id of
                              Inl e \<Rightarrow> (handler, ChatError (exc_str e))
                            | Inr chat_id \<Rightarrow>
                                (case get_chat chat_id of
                                   Inl e \<Rightarrow> (handler, ChatError (exc_str e))
                                 | Inr title \<Rightarrow>
                                     (handler\<lparr>default_recipients :=
                                        (if target_type = ''channel''
                                         then (default_recipients handler)
                                                \<lparr>me := None, channel := Some target_id, group := None\<rparr>
                                         else (default_recipients handler)
                                                \<lparr>me := None, group := Some target_id, channel := None\<rparr>)\<rparr>,
                                      SetChat target_type target_id))))
                 else if target_type = ''custom''
                 then (case rest_args of
                         [] \<Rightarrow> (handler, BadCustomFormat)
                       | spec # _ \<Rightarrow>
                           if CHR ''='' \<notin> set spec then (handler, BadCustomFormat)
                           else (let d = takeWhile (\<lambda>c. c \<noteq> CHR ''='') spec;
                                     chat_id = tl (dropWhile (\<lambda>c. c \<noteq> CHR ''='') spec)
                                 in (handler\<lparr>target_mapping := (target_mapping handler)(d \<mapsto> chat_id)\<rparr>,
                                     SetCustom d chat_id)))
                 else (handler, UnknownType)))"

fun run_commands ::
  "(int \<Rightarrow> pyexc + string) \<Rightarrow> smtp_handler \<Rightarrow> string list \<Rightarrow> smtp_handler \<times> reply list" where
  "run_commands get_chat handler [] = (handler, [])"
| "run_commands get_chat handler (msg_text # texts) =
     (let (handler', r) = set_target_command get_chat handler msg_text;
          (handler'', rs) = run_commands get_chat handler' texts
      in (handler'', r # rs))"

text \<open>The claim's reading of the state: how many of the three non-custom targets are
  active, and the dictionary that the last successful command leaves, read off the
  replies alone.\<close>

definition active_count :: "default_recipients_dict \<Rightarrow> nat" where
  "active_count dr = length (filter py_truthy [me dr, channel dr, group dr])"

fun last_writer :: "default_recipients_dict \<Rightarrow> reply list \<Rightarrow> default_recipients_dict" where
  "last_writer dr [] = dr"
| "last_writer dr (SetMe # rs) =
     last_writer \<lparr>me = Some ''self'', channel = None, group = None\<rparr> rs"
| "last_writer dr (SetChat target_type target_id # rs) =
     last_writer (if target_type = ''channel''
                  then \<lparr>me = None, channel = Some target_id, group = None\<rparr>
                  else \<lparr>me = None, channel = None, group = Some target_id\<rparr>) rs"
| "last_writer dr (r # rs) = last_writer dr rs"

text \<open>A client that knows the chats 111 and 222.\<close>

definition example_get_chat :: "int \<Rightarrow> pyexc + string" where
  "example_get_chat chat_id =
     (if chat_id = 111 then Inr ''News''
      else if chat_id = 222 then Inr ''Team''
      else Inl (PyExc OtherError ''chat not found''))"

subsection \<open>Notification text: \<open>_format_notification\<close>\<close>

text \<open>The fixed pieces of the template, as UTF-8 bytes where they are not ASCII.\<close>

definition badge_ok :: string where
  "badge_ok =
     [CHR 0xE2, CHR 0x9C, CHR 0x85]"

definition badge_warn :: string where
  "badge_warn =
     [CHR 0xE2, CHR 0x9A, CHR 0xA0, CHR 0xEF, CHR 0xB8, CHR 0x8F]"

definition label_dns :: string where
  "label_dns =
     ''**DNS:** ''"

definition mx_suffix :: string where
  "mx_suffix =
     '' MX '' @ [CHR 0xD0, CHR 0xB7, CHR 0xD0, CHR 0xB0, CHR 0xD0, CHR 0xBF, CHR
     0xD0, CHR 0xB8, CHR 0xD1, CHR 0x81, CHR 0xD0, CHR 0xB5, CHR 0xD0, CHR 0xB9]"

definition label_new_mail :: string where
  "label_new_mail =
     [CHR 0xF0, CHR 0x9F, CHR 0x93, CHR 0xA7] @ '' **'' @ [CHR 0xD0, CHR 0x9D, CHR
     0xD0, CHR 0xBE, CHR 0xD0, CHR 0xB2, CHR 0xD0, CHR 0xBE, CHR 0xD0, CHR 0xB5] @
     '' '' @ [CHR 0xD0, CHR 0xBF, CHR 0xD0, CHR 0xB8, CHR 0xD1, CHR 0x81, CHR 0xD1,
     CHR 0x8C, CHR 0xD0, CHR 0xBC, CHR 0xD0, CHR 0xBE] @ '' #''"

definition label_from :: string where
  "label_from =
     ''**'' @ [CHR 0xD0, CHR 0x9E, CHR 0xD1, CHR 0x82] @ '':** `''"

definition label_to :: string where
  "label_to =
     ''**'' @ [CHR 0xD0, CHR 0x9A, CHR 0xD0, CHR 0xBE, CHR 0xD0, CHR 0xBC, CHR 0xD1,
     CHR 0x83] @ '':** `''"

definition label_subject :: string where
  "label_subject =
     ''**'' @ [CHR 0xD0, CHR 0xA2, CHR 0xD0, CHR 0xB5, CHR 0xD0, CHR 0xBC, CHR 0xD0,
     CHR 0xB0] @ '':** ''"

definition label_date :: string where
  "label_date =
     ''**'' @ [CHR 0xD0, CHR 0x94, CHR 0xD0, CHR 0xB0, CHR 0xD1, CHR 0x82, CHR 0xD0,
     CHR 0xB0] @ '':** ''"

definition label_preview :: string where
  "label_preview =
     ''**'' @ [CHR 0xD0, CHR 0x9F, CHR 0xD1, CHR 0x80, CHR 0xD0, CHR 0xB5, CHR 0xD0,
     CHR 0xB2, CHR 0xD1, CHR 0x8C, CHR 0xD1, CHR 0x8E] @ '':**''"

definition label_commands :: string where
  "label_commands =
     ''**'' @ [CHR 0xD0, CHR 0x9A, CHR 0xD0, CHR 0xBE, CHR 0xD0, CHR 0xBC, CHR 0xD0,
     CHR 0xB0, CHR 0xD0, CHR 0xBD, CHR 0xD0, CHR 0xB4, CHR 0xD1, CHR 0x8B] @ '':**''"

definition hint_view_prefix :: string where
  "hint_view_prefix =
     [CHR 0xE2, CHR 0x80, CHR 0xA2] @ '' `/view ''"

definition hint_view_suffix :: string where
  "hint_view_suffix =
     ''` - '' @ [CHR 0xD0, CHR 0x9F, CHR 0xD1, CHR 0x80, CHR 0xD0, CHR 0xBE, CHR
     0xD1, CHR 0x81, CHR 0xD0, CHR 0xBC, CHR 0xD0, CHR 0xBE, CHR 0xD1, CHR 0x82, CHR
     0xD1, CHR 0x80] @ '' '' @ [CHR 0xD0, CHR 0xBF, CHR 0xD0, CHR 0xBE, CHR 0xD0,
     CHR 0xBB, CHR 0xD0, CHR 0xBD, CHR 0xD0, CHR 0xBE, CHR 0xD0, CHR 0xB3, CHR 0xD0,
     CHR 0xBE] @ '' '' @ [CHR 0xD0, CHR 0xBF, CHR 0xD0, CHR 0xB8, CHR 0xD1, CHR
     0x81, CHR 0xD1, CHR 0x8C, CHR 0xD0, CHR 0xBC, CHR 0xD0, CHR 0xB0]"

definition hint_source_prefix :: string where
  "hint_source_prefix =
     [CHR 0xE2, CHR 0x80, CHR 0xA2] @ '' `/source ''"

definition hint_source_suffix :: string where
  "hint_source_suffix =
     ''` - '' @ [CHR 0xD0, CHR 0x98, CHR 0xD1, CHR 0x81, CHR 0xD1, CHR 0x85, CHR
     0xD0, CHR 0xBE, CHR 0xD0, CHR 0xB4, CHR 0xD0, CHR 0xBD, CHR 0xD1, CHR 0x8B, CHR
     0xD0, CHR 0xB9] @ '' '' @ [CHR 0xD0, CHR 0xBA, CHR 0xD0, CHR 0xBE, CHR 0xD0,
     CHR 0xB4] @ '' '' @ [CHR 0xD0, CHR 0xBF, CHR 0xD0, CHR 0xB8, CHR 0xD1, CHR
     0x81, CHR 0xD1, CHR 0x8C, CHR 0xD0, CHR 0xBC, CHR 0xD0, CHR 0xB0]"

definition hint_set_target_prefix :: string where
  "hint_set_target_prefix =
     [CHR 0xE2, CHR 0x80, CHR 0xA2] @ '' `/set_target ''"

definition hint_set_target_suffix :: string where
  "hint_set_target_suffix =
     '' [me/channel/group/id]` - '' @ [CHR 0xD0, CHR 0x98, CHR 0xD0, CHR 0xB7, CHR
     0xD0, CHR 0xBC, CHR 0xD0, CHR 0xB5, CHR 0xD0, CHR 0xBD, CHR 0xD0, CHR 0xB8, CHR
     0xD1, CHR 0x82, CHR 0xD1, CHR 0x8C] @ '' '' @ [CHR 0xD0, CHR 0xBF, CHR 0xD0,
     CHR 0xBE, CHR 0xD0, CHR 0xBB, CHR 0xD1, CHR 0x83, CHR 0xD1, CHR 0x87, CHR 0xD0,
     CHR 0xB0, CHR 0xD1, CHR 0x82, CHR 0xD0, CHR 0xB5, CHR 0xD0, CHR 0xBB, CHR 0xD1,
     CHR 0x8F]"
text \<open>
  \<open>_extract_body_preview\<close>. In a multipart message the first \<open>text/plain\<close> part whose
  \<open>get_content()\<close> does not raise gives the preview (a bare \<open>except: pass\<close> skips the
  others); the test of the content type stands outside that \<open>try\<close>. In a flat message
  nothing is guarded.
\<close>

fun first_plain_text :: "email_msg list \<Rightarrow> pyexc + string" where
  "first_plain_text [] = Inr []"
| "first_plain_text (part # rest) =
     (case get_content_type part of
        Inl e \<Rightarrow> Inl e
      | Inr content_type \<Rightarrow>
          if content_type = ''text/plain''
          then (case get_content part of
                  Inr content \<Rightarrow> Inr (take 500 content)
                | Inl e \<Rightarrow> first_plain_text rest)
          else first_plain_text rest)"

definition extract_body_preview :: "email_msg \<Rightarrow> pyexc + string" where
  "extract_body_preview email =
     (if is_multipart email then first_plain_text (walk email)
      else bind_exc (get_content_type email) (\<lambda>content_type.
             if content_type = ''text/plain''
             then bind_exc (get_content email) (\<lambda>content. Inr (take 500 content))
             else Inr []))"

definition header_lines :: "smtp_handler \<Rightarrow> string \<Rightarrow> metadata \<Rightarrow> string list" where
  "header_lines self msg_id meta =
     [label_new_mail @ py_str_nat (message_counter self) @ ''**'',
      ''`'' @ msg_id @ ''`'',
      [],
      label_from @ from_addr meta @ ''`'',
      label_to @ to_addr meta @ ''`'',
      label_subject @ subject meta,
      label_date @ date meta,
      []]"

definition dns_badge_line :: "bool \<Rightarrow> nat \<Rightarrow> string" where
  "dns_badge_line mx_ok n =
     label_dns @ (if mx_ok then badge_ok else badge_warn) @ '' '' @ py_str_nat n @ mx_suffix"

text \<open>
  \<^verbatim>\<open>dns_report = metadata.get('dns_report', {})\<close>
  \<^verbatim>\<open>if dns_report.get('mx_records'):\<close>
  \<^verbatim>\<open>    mx_status = ok if dns_report.get('has_mx') else warn\<close>
  The fallback dictionary of a missing validator has no \<open>mx_records\<close> key.
\<close>

definition dns_lines :: "metadata \<Rightarrow> string list" where
  "dns_lines meta =
     (case dns_report meta of
        Some (Report r) \<Rightarrow>
          if mx_records r \<noteq> [] then [dns_badge_line (has_mx r) (length (mx_records r))] else []
      | Some (NoValidator d err) \<Rightarrow> []
      | None \<Rightarrow> [])"

definition preview_lines :: "string \<Rightarrow> string list" where
  "preview_lines body_preview =
     (if body_preview \<noteq> []
      then [[], label_preview, ''```'', take 200 body_preview @ ''...'', ''```'']
      else [])"

definition command_lines :: "string \<Rightarrow> string list" where
  "command_lines msg_id =
     [[],
      label_commands,
      hint_view_prefix @ msg_id @ hint_view_suffix,
      hint_source_prefix @ msg_id @ hint_source_suffix,
      hint_set_target_prefix @ msg_id @ hint_set_target_suffix]"

text \<open>The list \<open>lines\<close> as it stands before the final join.\<close>

definition notification_lines ::
  "smtp_handler \<Rightarrow> string \<Rightarrow> email_msg \<Rightarrow> metadata \<Rightarrow> pyexc + string list" where
  "notification_lines self msg_id email meta =
     (case extract_body_preview email of
        Inl e \<Rightarrow> Inl e
      | Inr body_preview \<Rightarrow>
          Inr (header_lines self msg_id meta @ dns_lines meta
                 @ preview_lines body_preview @ command_lines msg_id))"

definition format_notification ::
  "smtp_handler \<Rightarrow> string \<Rightarrow> email_msg \<Rightarrow> metadata \<Rightarrow> pyexc + string" where
  "format_notification self msg_id email meta =
     (case notification_lines self msg_id email meta of
        Inl e \<Rightarrow> Inl e
      | Inr ls \<Rightarrow> Inr (py_join [CHR 0x0A] ls))"

subsection \<open>Dispatch: \<open>_send_telegram_notification\<close>\<close>

text \<open>The messaging transport: \<open>send_message\<close> takes \<open>"me"\<close> or a numeric chat
  identifier and the text; it returns or raises.\<close>

datatype chat = SavedMessages | ChatId int

datatype notification =
  NoRecipient
  | Sent chat string
  | NotificationFailed pyexc

text \<open>The body of the \<open>try\<close> block, then the function with its \<open>except Exception\<close>,
  which logs and returns.\<close>

definition send_telegram_notification_body ::
  "(chat \<Rightarrow> string \<Rightarrow> pyexc + unit) \<Rightarrow> smtp_handler \<Rightarrow> string \<Rightarrow> email_msg \<Rightarrow> metadata
     \<Rightarrow> pyexc + notification" where
  "send_telegram_notification_body send_message self msg_id email meta =
     (let (recipient_type, recipient_id) = determine_recipient self meta
      in if recipient_id = [] then Inr NoRecipient
         else (case format_notification self msg_id email meta of
                 Inl e \<Rightarrow> Inl e
               | Inr formatted_msg \<Rightarrow>
                   if recipient_type = ''me''
                   then (case send_message SavedMessages formatted_msg of
                           Inl e \<Rightarrow> Inl e
                         | Inr u \<Rightarrow> Inr (Sent SavedMessages formatted_msg))
                   else (case py_int recipient_id of
                           Inl e \<Rightarrow> Inl e
                         | Inr n \<Rightarrow>
                             (case send_message (ChatId n) formatted_msg of
                                Inl e \<Rightarrow> Inl e
                              | Inr u \<Rightarrow> Inr (Sent (ChatId n) formatted_msg)))))"

definition send_telegram_notification ::
  "(chat \<Rightarrow> string \<Rightarrow> pyexc + unit) \<Rightarrow> smtp_handler \<Rightarrow> string \<Rightarrow> email_msg \<Rightarrow> metadata
     \<Rightarrow> notification" where
  "send_telegram_notification send_message self msg_id email meta =
     (case send_telegram_notification_body send_message self msg_id email meta of
        Inr outcome \<Rightarrow> outcome
      | Inl e \<Rightarrow> NotificationFailed e)"

subsection \<open>DNS provisioning trigger: \<open>_handle_dns_integration\<close>\<close>

definition py_endswith :: "string \<Rightarrow> string \<Rightarrow> bool" where
  "py_endswith suffix s =
     (length suffix \<le> length s \<and> drop (length s - length suffix) s = suffix)"

text \<open>\<open>s.replace(old, new)\<close> for a non-empty \<open>old\<close>: left to right, without overlap.
  \<open>skip\<close> counts the characters of a match still to be passed over.\<close>

fun replace_from :: "nat \<Rightarrow> string \<Rightarrow> string \<Rightarrow> string \<Rightarrow> string" where
  "replace_from skip old new [] = []"
| "replace_from skip old new (c # cs) =
     (if skip > 0 then replace_from (skip - 1) old new cs
      else if old \<noteq> [] \<and> take (length old) (c # cs) = old
      then new @ replace_from (length old - 1) old new cs
      else c # replace_from 0 old new cs)"

definition py_replace :: "string \<Rightarrow> string \<Rightarrow> string \<Rightarrow> string" where
  "py_replace old new s = replace_from 0 old new s"

datatype provisioning =
  NotManaged
  | Provisioned string
  | ProvisioningError string string
  | ProvisioningFailed pyexc

text \<open>\<open>ensure_tmail_integration\<close> gives the result's \<open>error\<close> entry (\<open>None\<close> when the
  result has none) or raises; every exception is caught and logged here.\<close>

definition handle_dns_integration ::
  "(string \<Rightarrow> pyexc + string option) \<Rightarrow> metadata \<Rightarrow> provisioning" where
  "handle_dns_integration ensure_tmail_integration meta =
     (let d = recipient_domain meta
      in if py_endswith ''.t.me'' d \<or> py_contains ''t.me'' d
         then (let telegram_username = py_replace ''@'' [] (py_replace ''.t.me'' [] d)
               in case ensure_tmail_integration telegram_username of
                    Inl e \<Rightarrow> ProvisioningFailed e
                  | Inr None \<Rightarrow> Provisioned telegram_username
                  | Inr (Some err) \<Rightarrow> ProvisioningError telegram_username err)
         else NotManaged)"

subsection \<open>Ingestion: \<open>handle_message\<close>\<close>

text \<open>\<open>_extract_metadata\<close>: the entries of the dictionary are evaluated in the order in
  which they are written, and the first header read that raises ends the function.\<close>

definition extract_metadata :: "email_msg \<Rightarrow> string \<Rightarrow> string \<Rightarrow> pyexc + metadata" where
  "extract_metadata email msg_id now_iso =
     bind_exc (msg_get (msg_items email) ''From'' []) (\<lambda>from_value.
     bind_exc (msg_get (msg_items email) ''To'' []) (\<lambda>to_value.
     bind_exc (msg_get (msg_items email) ''Cc'' []) (\<lambda>cc_value.
     bind_exc (msg_get (msg_items email) ''Bcc'' []) (\<lambda>bcc_value.
     bind_exc (msg_get (msg_items email) ''Subject'' []) (\<lambda>subject_value.
     bind_exc (msg_get (msg_items email) ''Date'' []) (\<lambda>date_value.
     bind_exc (msg_get (msg_items email) ''To'' []) (\<lambda>to_again.
     bind_exc (extract_domain to_again) (\<lambda>recipient.
     bind_exc (items_dict email) (\<lambda>hdrs.
       Inr \<lparr>message_id = msg_id,
            from_addr = from_value,
            to_addr = to_value,
            cc = cc_value,
            bcc = bcc_value,
            subject = subject_value,
            date = date_value,
            recipient_domain = recipient,
            received_at = now_iso,
            headers = hdrs,
            dns_report = None\<rparr>)))))))))"

text \<open>The collaborators and the readings of the outside world that one call of
  \<open>handle_message\<close> uses. \<open>dns_validator\<close> is \<open>None\<close> when no validator is configured,
  else the resolver with the validator's configured default domain. \<open>new_msg_id\<close> is the
  identifier built from the time and a random suffix.\<close>

record collaborators =
  message_from_bytes :: "bytes \<Rightarrow> pyexc + email_msg"
  dns_validator :: "(dns_resolver \<times> string option) option"
  tg_send_message :: "chat \<Rightarrow> string \<Rightarrow> pyexc + unit"
  cf_ensure_tmail_integration :: "string \<Rightarrow> pyexc + string option"
  new_msg_id :: string
  utcnow_timestamp :: real
  utcnow_isoformat :: string

text \<open>\<open>_validate_recipient_dns\<close>: the validator's report, or the fallback dictionary
  when there is no validator or it raised.\<close>

definition validate_recipient_dns :: "collaborators \<Rightarrow> string \<Rightarrow> dns_info" where
  "validate_recipient_dns env d =
     (case dns_validator env of
        None \<Rightarrow> NoValidator d ''Validator not available''
      | Some (resolver, config_target_domain) \<Rightarrow>
          (case validate_domain_mx resolver config_target_domain (utcnow_isoformat env) (Some d) of
             Inr report \<Rightarrow> Report report
           | Inl e \<Rightarrow> NoValidator d ''Validator not available''))"

record handled =
  response :: string
  handler_after :: smtp_handler
  storage_after :: redis_storage
  stored :: "bool option"
  notified :: "notification option"
  provisioned :: "provisioning option"

text \<open>
  \<open>handle_message\<close>. \<open>incoming\<close> is what \<open>bytes(message)\<close> yields. The counter is
  incremented before the \<open>try\<close>; the value that \<open>store_email\<close> returns is not looked at.
  \<open>stored\<close>, \<open>notified\<close> and \<open>provisioned\<close> record what the three later stages did
  (\<open>None\<close> when the stage was not reached).
\<close>

definition handle_message ::
  "collaborators \<Rightarrow> smtp_handler \<Rightarrow> redis_storage \<Rightarrow> pyexc + bytes \<Rightarrow> handled" where
  "handle_message env self0 storage incoming =
     (let self = self0\<lparr>message_counter := message_counter self0 + 1\<rparr>;
          msg_id = new_msg_id env;
          failed = (\<lambda>e. \<lparr>response = ''451 Temporary processing error: '' @ exc_str e,
                         handler_after = self, storage_after = storage,
                         stored = None, notified = None, provisioned = None\<rparr>)
      in case incoming of
           Inl e \<Rightarrow> failed e
         | Inr raw_email \<Rightarrow>
             (case message_from_bytes env raw_email of
                Inl e \<Rightarrow> failed e
              | Inr email \<Rightarrow>
                  (case extract_metadata email msg_id (utcnow_isoformat env) of
                     Inl e \<Rightarrow> failed e
                   | Inr meta0 \<Rightarrow>
                       (let report = validate_recipient_dns env (recipient_domain meta0);
                            meta = meta0\<lparr>dns_report := Some report\<rparr>;
                            (ok, storage') = store_email storage (utcnow_timestamp env) msg_id raw_email meta;
                            outcome = send_telegram_notification (tg_send_message env) self msg_id email meta;
                            prov = handle_dns_integration (cf_ensure_tmail_integration env) meta
                        in \<lparr>response = ''250 Message '' @ msg_id @ '' accepted'',
                            handler_after = self, storage_after = storage',
                            stored = Some ok, notified = Some outcome,
                            provisioned = Some prov\<rparr>))))"

text \<open>The metadata that \<open>handle_message\<close> stores for a parsed message.\<close>

definition ingested_metadata :: "collaborators \<Rightarrow> email_msg \<Rightarrow> pyexc + metadata" where
  "ingested_metadata env email =
     (case extract_metadata email (new_msg_id env) (utcnow_isoformat env) of
        Inl e \<Rightarrow> Inl e
      | Inr meta0 \<Rightarrow>
          Inr (meta0\<lparr>dns_report := Some (validate_recipient_dns env (recipient_domain meta0))\<rparr>))"

subsection \<open>Inputs to run the handler on\<close>

text \<open>A flat plain-text message to \<open>b@x.com\<close>, a transport that delivers and one that
  always raises, a store without a connection, and a handler with the mapping
  \<open>{"x.com": "999"}\<close> and the channel 111 active.\<close>

definition example_email :: email_msg where
  "example_email =
     Email [(''From'', Inr ''a@a.com''), (''To'', Inr ''b@x.com''), (''Subject'', Inr ''hi'')]
       (Inr ''text/plain'') (Inr ''hello'') (Inr (Some ''hello'')) None"

definition delivering :: "chat \<Rightarrow> string \<Rightarrow> pyexc + unit" where
  "delivering c t = Inr ()"

definition flood_wait :: "chat \<Rightarrow> string \<Rightarrow> pyexc + unit" where
  "flood_wait c t = Inl (PyExc OtherError ''A wait of 30 seconds is required'')"

definition example_env :: "(chat \<Rightarrow> string \<Rightarrow> pyexc + unit) \<Rightarrow> collaborators" where
  "example_env send =
     \<lparr>message_from_bytes = (\<lambda>b. Inr example_email),
      dns_validator = None,
      tg_send_message = send,
      cf_ensure_tmail_integration = (\<lambda>u. Inr None),
      new_msg_id = ''msg_1'',
      utcnow_timestamp = 100,
      utcnow_isoformat = ''2024-01-01T00:00:00''\<rparr>"

definition offline_storage :: redis_storage where
  "offline_storage =
     \<lparr>redis = Some \<lparr>strings = Map.empty, sets = Map.empty, zsets = Map.empty, online = False\<rparr>,
      message_ttl = 604800,
      set_iteration = (\<lambda>members. members)\<rparr>"

definition example_routing_handler :: smtp_handler where
  "example_routing_handler =
     \<lparr>target_mapping = [''x.com'' \<mapsto> ''999''],
      message_counter = 0,
      default_recipients = \<lparr>me = None, channel = Some ''111'', group = None\<rparr>\<rparr>"

text \<open>Metadata with the report that the validator builds for a domain without MX
  records.\<close>

definition no_mx_metadata :: metadata where
  "no_mx_metadata =
     (example_metadata ''msg_1'')
       \<lparr>dns_report := Some (Report (initial_report ''x.com'' ''2024-01-01T00:00:00''))\<rparr>"

text \<open>The lines of a notification that start with the DNS label.\<close>

definition is_badge_line :: "string \<Rightarrow> bool" where
  "is_badge_line l = (take (length label_dns) l = label_dns)"

definition badge_lines_in :: "string list \<Rightarrow> string list" where
  "badge_lines_in ls = filter is_badge_line ls"

section \<open>Properties of the string helpers\<close>

lemma py_split_not_Nil: "py_split sep s \<noteq> []"
  by (induction s) (auto split: list.splits)

lemma hd_py_split: "hd (py_split sep s) = takeWhile (\<lambda>c. c \<noteq> sep) s"
  using py_split_not_Nil [of sep]
  by (induction s) (auto split: list.splits)

lemma tl_py_split:
  "sep \<in> set s \<Longrightarrow> tl (py_split sep s) = py_split sep (tl (dropWhile (\<lambda>c. c \<noteq> sep) s))"
  using py_split_not_Nil [of sep]
  by (induction s) (auto split: list.splits)

lemma py_split_second:
  assumes "sep \<in> set s"
  shows "\<exists>p rest. py_split sep s = p # takeWhile (\<lambda>c. c \<noteq> sep) (tl (dropWhile (\<lambda>c. c \<noteq> sep) s)) # rest"
proof -
  let ?r = "tl (dropWhile (\<lambda>c. c \<noteq> sep) s)"
  obtain p ps where ps: "py_split sep s = p # ps"
    using py_split_not_Nil [of sep s] by (cases "py_split sep s") auto
  then have "ps = py_split sep ?r"
    using tl_py_split [OF assms] by simp
  moreover obtain q qs where qs: "py_split sep ?r = q # qs"
    using py_split_not_Nil [of sep ?r] by (cases "py_split sep ?r") auto
  moreover have "q = takeWhile (\<lambda>c. c \<noteq> sep) ?r"
    using hd_py_split [of sep ?r] qs by simp
  ultimately show ?thesis using ps by simp
qed

lemma extract_domain_value:
  "extract_domain s =
     Inr (if CHR ''@'' \<in> set s
          then py_lower (py_strip (takeWhile (\<lambda>c. c \<noteq> CHR ''@'') (after_first_at s)))
          else ''unknown'')"
proof (cases "CHR ''@'' \<in> set s")
  case True
  from py_split_second [OF True] obtain p rest where
    "py_split CHR ''@'' s = p # takeWhile (\<lambda>c. c \<noteq> CHR ''@'') (after_first_at s) # rest"
    unfolding after_first_at_def by blast
  with True show ?thesis by (simp add: extract_domain_def)
next
  case False
  then show ?thesis by (simp add: extract_domain_def)
qed

lemma extract_domain_examples:
  "extract_domain ''a@b.example.com'' = Inr ''b.example.com''"
  "extract_domain ''no-at-sign'' = Inr ''unknown''"
  "extract_domain ''b@x.com'' = Inr ''x.com''"
  by code_simp+

section \<open>Recipient-domain extraction\<close>

text \<open>
  C2, as stated: the domain is the lower-cased substring after the first \<open>@\<close>. The code
  takes the second piece of the split, so a second \<open>@\<close> ends the domain, and it strips
  white space before lower-casing.
\<close>

theorem extract_domain_second_at_counterexample:
  "extract_domain ''a@B.example.com@c'' = Inr ''b.example.com''
   \<and> spec_domain ''a@B.example.com@c'' = ''b.example.com@c''
   \<and> extract_domain ''a@B.example.com@c'' \<noteq> Inr (spec_domain ''a@B.example.com@c'')
   \<and> extract_domain ''a@b.example.com '' = Inr ''b.example.com''
   \<and> spec_domain ''a@b.example.com '' = ''b.example.com ''"
  by code_simp

text \<open>
  C2, amended: for every To string containing \<open>@\<close>, the extracted domain is the piece
  between the first \<open>@\<close> and the next \<open>@\<close> (or the end of the string), stripped of
  surrounding white space and lower-cased; without any \<open>@\<close> it is the sentinel
  \<open>unknown\<close>. The function never raises.
\<close>

theorem extract_domain_between_ats:
  "extract_domain s =
     Inr (if CHR ''@'' \<in> set s
          then py_lower (py_strip (takeWhile (\<lambda>c. c \<noteq> CHR ''@'') (after_first_at s)))
          else ''unknown'')"
  by (rule extract_domain_value)

section \<open>The DNS validator\<close>

lemma validate_body_cases:
  "validate_body r target report =
     (case get_mx_records r target of
        Inl e \<Rightarrow> Inl (e, report)
      | Inr mx \<Rightarrow>
          Inr (report\<lparr>mx_records := fst (resolve_mx_hosts r mx (a_records report)),
                       has_mx := length mx > 0,
                       txt_records := get_txt_records r target,
                       ns_records := get_ns_records r target,
                       soa_record := get_soa_record r target,
                       a_records := resolve_ptrs r (snd (resolve_mx_hosts r mx (a_records report)))\<rparr>))"
  by (simp add: validate_body_def Let_def split: sum.splits prod.splits)

lemma resolve_mx_hosts_value:
  "resolve_mx_hosts r mxs acc =
     (map (\<lambda>mx. mx\<lparr>resolved := Some (get_a_records r (mx_host mx) \<noteq> [])\<rparr>) mxs,
      acc @ concat (map (\<lambda>mx. get_a_records r (mx_host mx)) mxs))"
  by (induction mxs arbitrary: acc) (simp_all add: Let_def)

lemma resolve_mx_hosts_length:
  "length (fst (resolve_mx_hosts r mxs acc)) = length mxs"
  by (simp add: resolve_mx_hosts_value)






lemma validator_report_has_mx_iff:
  assumes "validate_domain_mx r cfg now_iso d = Inr report"
  shows "has_mx report = (mx_records report \<noteq> [])"
proof (cases "get_mx_records r (validation_target cfg d)")
  case (Inl e)
  with assms show ?thesis
    by (auto simp: validate_domain_mx_def validate_body_cases Let_def initial_report_def)
next
  case (Inr mx)
  have "length (fst (resolve_mx_hosts r mx [])) = length mx"
    by (rule resolve_mx_hosts_length)
  then have "(fst (resolve_mx_hosts r mx []) \<noteq> []) = (0 < length mx)"
    by (cases "fst (resolve_mx_hosts r mx [])") auto
  with Inr assms show ?thesis
    by (auto simp: validate_domain_mx_def validate_body_cases Let_def initial_report_def)
qed







section \<open>The message store\<close>

lemma set_zinsert: "set (zinsert e xs) = insert e (set xs)"
  by (induction xs) auto

lemma length_zinsert: "length (zinsert e xs) = Suc (length xs)"
  by (induction xs) auto

lemma zinsert_scores_sorted:
  "sorted_wrt (\<lambda>a b. snd b \<le> snd a) xs \<Longrightarrow> sorted_wrt (\<lambda>a b. snd b \<le> snd a) (zinsert e xs)"
proof (induction xs)
  case Nil
  then show ?case by simp
next
  case (Cons x xs)
  show ?case
  proof (cases "zset_le x e")
    case True
    then have le: "snd x \<le> snd e" by (auto simp: zset_le_def)
    have "\<forall>y\<in>set xs. snd y \<le> snd x" using Cons.prems by simp
    then have "\<forall>y\<in>set xs. snd y \<le> snd e" using le by force
    with Cons.prems True le show ?thesis by simp
  next
    case False
    then have "snd e \<le> snd x" by (auto simp: zset_le_def)
    with Cons False show ?thesis by (simp add: set_zinsert)
  qed
qed

lemma zrev_order_sorted: "sorted_wrt (\<lambda>a b. snd b \<le> snd a) (zrev_order es)"
  unfolding zrev_order_def
  by (induction es) (simp_all add: zinsert_scores_sorted)

lemma set_zrev_order: "set (zrev_order es) = set es"
  unfolding zrev_order_def
  by (induction es) (simp_all add: set_zinsert)

lemma length_zrev_order: "length (zrev_order es) = length es"
  unfolding zrev_order_def
  by (induction es) (simp_all add: length_zinsert)

lemma retrieve_all_map_filter:
  "retrieve_all parser self now ids = List.map_filter (retrieve_email parser self now) ids"
  by (induction ids) (auto simp: List.map_filter_simps split: option.splits)

lemma length_retrieve_all: "length (retrieve_all parser self now ids) \<le> length ids"
  by (induction ids) (auto split: option.splits)

lemma window_is_offset_then_limit:
  assumes "0 \<le> offset" and "0 \<le> limit"
  shows "py_prefix limit (zrange_slice offset (offset + limit - 1) xs)
           = take (nat limit) (drop (nat offset) xs)"
proof (cases "limit = 0")
  case True
  then show ?thesis by (simp add: py_prefix_def)
next
  case False
  with assms have pos: "0 < limit" by simp
  let ?n = "int (length xs)"
  show ?thesis
  proof (cases "?n \<le> offset")
    case True
    with assms pos have "zrange_slice offset (offset + limit - 1) xs = []"
      by (simp add: zrange_slice_def Let_def)
    moreover from True assms have "drop (nat offset) xs = []" by simp
    ultimately show ?thesis by (simp add: py_prefix_def)
  next
    case inside: False
    show ?thesis
    proof (cases "offset + limit - 1 \<le> ?n - 1")
      case True
      with assms pos inside
      have "zrange_slice offset (offset + limit - 1) xs = take (nat limit) (drop (nat offset) xs)"
        by (simp add: zrange_slice_def Let_def min_def)
      with pos show ?thesis by (simp add: py_prefix_def)
    next
      case False
      with assms pos inside
      have "zrange_slice offset (offset + limit - 1) xs
              = take (nat (?n - offset)) (drop (nat offset) xs)"
        by (simp add: zrange_slice_def Let_def min_def)
      moreover have "length (drop (nat offset) xs) = nat (?n - offset)"
        using assms by (simp add: nat_diff_distrib)
      ultimately have z: "zrange_slice offset (offset + limit - 1) xs = drop (nat offset) xs"
        by simp
      have "length (drop (nat offset) xs) \<le> nat limit"
        using False assms by simp
      with z pos show ?thesis by (simp add: py_prefix_def)
    qed
  qed
qed

lemma retrieve_email_keys_gone:
  "keys_gone self now email_id \<Longrightarrow> retrieve_email parser self now email_id = None"
  by (auto simp: keys_gone_def retrieve_email_def pipeline_execute_def Let_def
           split: option.splits stored_value.splits)

lemma search_without_domain:
  assumes "d = None \<or> d = Some []"
  shows "search_emails parser self now d limit offset
           = retrieve_all parser self now
               (py_prefix limit (map fst (zrange_slice offset (offset + limit - 1)
                                             (recency_entries self))))"
proof (cases "redis self")
  case None
  have "zrange_slice offset (offset + limit - 1) ([] :: (string \<times> real) list) = []"
    by (simp add: zrange_slice_def Let_def)
  with None assms show ?thesis
    by (auto simp: search_emails_def recency_entries_def py_prefix_def)
next
  case (Some db)
  have e: "zrange_slice offset (offset + limit - 1) ([] :: (string \<times> real) list) = []"
    by (simp add: zrange_slice_def Let_def)
  show ?thesis
  proof (cases "online db")
    case True
    with Some assms show ?thesis
      by (auto simp: search_emails_def recency_entries_def zrevrange_def)
  next
    case False
    with Some assms e show ?thesis
      by (auto simp: search_emails_def recency_entries_def zrevrange_def py_prefix_def)
  qed
qed

lemmas store_eval =
  search_emails_def three_stored_def store_email_def empty_storage_def pipeline_execute_def
  cleanup_old_indexes_def zremrangebyscore_def zrevrange_def smembers_def zrev_order_def
  zset_le_def zrange_slice_def py_prefix_def retrieve_email_def redis_get_def plain_parser_def
  example_metadata_def result_ids_def keys_gone_def Let_def
  parse_email_structure_def items_dict_def bind_exc_def is_multipart_def

lemma py_prefix_map: "py_prefix n (map f xs) = map f (py_prefix n xs)"
  by (simp add: py_prefix_def take_map)

lemma search_example_100_200_300:
  "result_ids (search_emails plain_parser three_stored 300 None 2 0) = [''m3'', ''m2'']"
  by (simp add: store_eval)

lemma search_example_expired:
  "result_ids (search_emails plain_parser three_stored 604950 None 3 0) = [''m3'', ''m2'']
   \<and> keys_gone three_stored 604950 ''m1''
   \<and> map fst (recency_entries three_stored) = [''m3'', ''m2'', ''m1'']"
  by (simp add: store_eval recency_entries_def)

text \<open>
  C7: a search without a domain (\<open>None\<close>, or the empty string, which the code treats the
  same) with a non-negative offset and limit returns the retrievable entries among the
  ids at the positions \<open>offset\<close> to \<open>offset + limit - 1\<close> of the recency index read
  from the highest score down: the offset is dropped first, then the limit is taken. The
  index is listed in descending order of score, an id whose raw or metadata key is missing
  or expired retrieves nothing and is left out, so the result has at most \<open>limit\<close>
  entries. With messages stored at the epoch seconds 100, 200 and 300, a search with limit
  2 returns the ids of 300, then 200.
\<close>

theorem search_recent_first:
  assumes "d = None \<or> d = Some []" and "0 \<le> offset" and "0 \<le> limit"
  shows "search_emails parser self now d limit offset
           = List.map_filter (retrieve_email parser self now)
               (take (nat limit) (drop (nat offset) (map fst (recency_entries self))))
         \<and> sorted_wrt (\<lambda>a b. snd b \<le> snd a) (recency_entries self)
         \<and> length (search_emails parser self now d limit offset) \<le> nat limit
         \<and> (\<forall>email_id. keys_gone self now email_id
               \<longrightarrow> retrieve_email parser self now email_id = None)
         \<and> result_ids (search_emails plain_parser three_stored 300 None 2 0) = [''m3'', ''m2'']"
proof -
  let ?ids = "take (nat limit) (drop (nat offset) (map fst (recency_entries self)))"
  have "py_prefix limit (map fst (zrange_slice offset (offset + limit - 1) (recency_entries self)))
          = map fst (take (nat limit) (drop (nat offset) (recency_entries self)))"
    using window_is_offset_then_limit [OF assms(2,3), of "recency_entries self"]
    by (simp add: py_prefix_map)
  then have s: "search_emails parser self now d limit offset = retrieve_all parser self now ?ids"
    using search_without_domain [OF assms(1)] by (simp add: take_map drop_map)
  have 1: "search_emails parser self now d limit offset
             = List.map_filter (retrieve_email parser self now) ?ids"
    using s by (simp add: retrieve_all_map_filter)
  have 2: "sorted_wrt (\<lambda>a b. snd b \<le> snd a) (recency_entries self)"
    by (simp add: recency_entries_def zrev_order_sorted split: option.splits)
  have "length (retrieve_all parser self now ?ids) \<le> length ?ids"
    by (rule length_retrieve_all)
  moreover have "length ?ids \<le> nat limit" by simp
  ultimately have 3: "length (search_emails parser self now d limit offset) \<le> nat limit"
    using s by simp
  have 4: "\<forall>email_id. keys_gone self now email_id
             \<longrightarrow> retrieve_email parser self now email_id = None"
    by (simp add: retrieve_email_keys_gone)
  from 1 2 3 4 search_example_100_200_300 show ?thesis by blast
qed

text \<open>The theorem at a store where the oldest of three messages has expired: a search
  with limit 3 returns two entries.\<close>

theorem search_recent_first_witness:
  "((None :: string option) = None \<or> None = Some []) \<and> (0::int) \<le> 0 \<and> (0::int) \<le> 3
   \<and> map fst (recency_entries three_stored) = [''m3'', ''m2'', ''m1'']
   \<and> keys_gone three_stored 604950 ''m1''
   \<and> retrieve_email plain_parser three_stored 604950 ''m1'' = None
   \<and> search_emails plain_parser three_stored 604950 None 3 0
       = List.map_filter (retrieve_email plain_parser three_stored 604950) [''m3'', ''m2'', ''m1'']
   \<and> result_ids (search_emails plain_parser three_stored 604950 None 3 0) = [''m3'', ''m2'']"
proof -
  have h: "(None :: string option) = None \<or> None = Some []" "(0::int) \<le> 0" "(0::int) \<le> 3"
    by simp_all
  note t = search_recent_first [OF h, of plain_parser three_stored 604950]
  from t search_example_expired show ?thesis by simp
qed

text \<open>
  C10, as stated for every domain \<open>d\<close>: the empty string is a domain argument that the
  test \<open>if domain:\<close> sends down the recency path, where the offset matters.
\<close>

theorem search_empty_domain_counterexample:
  "result_ids (search_emails plain_parser three_stored 300 (Some []) 1 0) = [''m3'']
   \<and> result_ids (search_emails plain_parser three_stored 300 (Some []) 1 1) = [''m2'']
   \<and> search_emails plain_parser three_stored 300 (Some []) 1 0
       \<noteq> search_emails plain_parser three_stored 300 (Some []) 1 1"
proof -
  have a: "result_ids (search_emails plain_parser three_stored 300 (Some []) 1 0) = [''m3'']"
    by (simp add: store_eval)
  have b: "result_ids (search_emails plain_parser three_stored 300 (Some []) 1 1) = [''m2'']"
    by (simp add: store_eval)
  from a b have "search_emails plain_parser three_stored 300 (Some []) 1 0
                   \<noteq> search_emails plain_parser three_stored 300 (Some []) 1 1"
    by auto
  with a b show ?thesis by simp
qed

text \<open>
  C10, amended: for every store state, every non-empty domain \<open>d\<close> and every limit, a
  search with domain \<open>d\<close> returns the same result whatever the offset.
\<close>

theorem search_domain_ignores_offset:
  assumes "d \<noteq> []"
  shows "search_emails parser self now (Some d) limit o1
           = search_emails parser self now (Some d) limit o2"
  using assms by (cases "redis self") (simp_all add: search_emails_def)

lemma search_domain_example:
  "result_ids (search_emails plain_parser three_stored 300 (Some ''x.com'') 2 0) = [''m1'', ''m2'']"
  by (simp add: store_eval)

theorem search_domain_ignores_offset_witness:
  "''x.com'' \<noteq> []
   \<and> search_emails plain_parser three_stored 300 (Some ''x.com'') 2 0
       = search_emails plain_parser three_stored 300 (Some ''x.com'') 2 7
   \<and> result_ids (search_emails plain_parser three_stored 300 (Some ''x.com'') 2 7) = [''m1'', ''m2'']"
proof -
  have h: "''x.com'' \<noteq> []" by simp
  from search_domain_ignores_offset [OF h, of plain_parser three_stored 300 2 0 7]
    search_domain_example
  show ?thesis by simp
qed

section \<open>Routing\<close>

lemma determine_recipient_refines:
  "determine_recipient self meta
     = target_pair (spec_resolve meta (target_mapping self) (active_target (default_recipients self)))"
  by (simp add: determine_recipient_def spec_resolve_def active_target_def truthy_id_def
           split: option.splits)

text \<open>
  C3: for every metadata, domain mapping and active target, the code's routing decision
  is the specification's resolver applied to the mapping and to the active target read
  off \<open>default_recipients\<close>: an exact match of the recipient domain in the mapping gives
  the custom target, whatever is active; without a match an active channel or group is
  the target; otherwise the fallback \<open>self\<close>.
\<close>

theorem routing_precedence:
  "determine_recipient self meta
     = target_pair (spec_resolve meta (target_mapping self) (active_target (default_recipients self)))
   \<and> (\<forall>t. target_mapping self (recipient_domain meta) = Some t
          \<longrightarrow> determine_recipient self meta = (''custom'', t))
   \<and> (\<forall>c. target_mapping self (recipient_domain meta) = None
            \<and> active_target (default_recipients self) = Channel c
          \<longrightarrow> determine_recipient self meta = (''channel'', c))
   \<and> (\<forall>g. target_mapping self (recipient_domain meta) = None
            \<and> active_target (default_recipients self) = Group g
          \<longrightarrow> determine_recipient self meta = (''group'', g))
   \<and> (target_mapping self (recipient_domain meta) = None
        \<and> active_target (default_recipients self) = Self
          \<longrightarrow> determine_recipient self meta = (''me'', ''self''))"
  by (simp add: determine_recipient_refines spec_resolve_def)

text \<open>The specification's example: with the mapping \<open>{"x.com": "999"}\<close> and the
  channel 111 active, mail for \<open>x.com\<close> goes to \<open>custom:999\<close> and mail for \<open>y.com\<close> to
  \<open>channel:111\<close>.\<close>

theorem routing_precedence_witness:
  "target_mapping example_routing_handler
       (recipient_domain ((example_metadata ''m1'')\<lparr>recipient_domain := ''x.com''\<rparr>)) = Some ''999''
   \<and> active_target (default_recipients example_routing_handler) = Channel ''111''
   \<and> determine_recipient example_routing_handler
        ((example_metadata ''m1'')\<lparr>recipient_domain := ''x.com''\<rparr>) = (''custom'', ''999'')
   \<and> target_mapping example_routing_handler
        (recipient_domain ((example_metadata ''m1'')\<lparr>recipient_domain := ''y.com''\<rparr>)) = None
   \<and> determine_recipient example_routing_handler
        ((example_metadata ''m1'')\<lparr>recipient_domain := ''y.com''\<rparr>) = (''channel'', ''111'')"
proof -
  let ?x = "(example_metadata ''m1'')\<lparr>recipient_domain := ''x.com''\<rparr>"
  let ?y = "(example_metadata ''m1'')\<lparr>recipient_domain := ''y.com''\<rparr>"
  have a: "target_mapping example_routing_handler (recipient_domain ?x) = Some ''999''"
    by (simp add: example_routing_handler_def)
  have b: "target_mapping example_routing_handler (recipient_domain ?y) = None"
    by (simp add: example_routing_handler_def)
  have c: "active_target (default_recipients example_routing_handler) = Channel ''111''"
    by (simp add: example_routing_handler_def active_target_def truthy_id_def)
  from routing_precedence [of example_routing_handler ?x] a
  have x: "determine_recipient example_routing_handler ?x = (''custom'', ''999'')" by blast
  from routing_precedence [of example_routing_handler ?y] b c
  have y: "determine_recipient example_routing_handler ?y = (''channel'', ''111'')" by blast
  from a b c x y show ?thesis by simp
qed

section \<open>The set-target command\<close>

lemma split_ws_from_nonempty: "[] \<notin> set (split_ws_from word s)"
  by (induction s arbitrary: word) auto

lemma py_split_ws_nonempty: "w \<in> set (py_split_ws s) \<Longrightarrow> w \<noteq> []"
  using split_ws_from_nonempty [of "[]" s] by (auto simp: py_split_ws_def)

lemma args_nonempty:
  assumes "drop 1 (py_split_ws s) = a # b # rest"
  shows "b \<noteq> []"
proof -
  have "b \<in> set (drop 1 (py_split_ws s))" using assms by simp
  then have "b \<in> set (py_split_ws s)" by (rule in_set_dropD)
  then show ?thesis by (rule py_split_ws_nonempty)
qed

lemma set_target_command_step:
  assumes "set_target_command get_chat h msg_text = (h', r)"
  shows "default_recipients h' = last_writer (default_recipients h) [r]"
    and "active_count (default_recipients h) = 1 \<Longrightarrow> active_count (default_recipients h') = 1"
    and "(\<forall>d c. r \<noteq> SetCustom d c) \<Longrightarrow> target_mapping h' = target_mapping h"
proof -
  show "default_recipients h' = last_writer (default_recipients h) [r]"
    using assms
    by (auto simp: set_target_command_def Let_def split: list.splits sum.splits if_splits)
  show "active_count (default_recipients h) = 1 \<Longrightarrow> active_count (default_recipients h') = 1"
    using assms args_nonempty [of msg_text]
    by (auto simp: set_target_command_def Let_def active_count_def py_truthy_def
             split: list.splits sum.splits if_splits)
  show "(\<forall>d c. r \<noteq> SetCustom d c) \<Longrightarrow> target_mapping h' = target_mapping h"
    using assms
    by (auto simp: set_target_command_def Let_def split: list.splits sum.splits if_splits)
qed

lemma last_writer_Cons: "last_writer dr (r # rs) = last_writer (last_writer dr [r]) rs"
  by (cases r) simp_all

lemma run_commands_invariant:
  "run_commands get_chat h texts = (h', replies)
   \<Longrightarrow> default_recipients h' = last_writer (default_recipients h) replies
       \<and> (active_count (default_recipients h) = 1 \<longrightarrow> active_count (default_recipients h') = 1)"
proof (induction texts arbitrary: h replies)
  case Nil
  then show ?case by simp
next
  case (Cons t texts)
  obtain h1 r where step: "set_target_command get_chat h t = (h1, r)"
    by (cases "set_target_command get_chat h t")
  obtain h2 rs where rest: "run_commands get_chat h1 texts = (h2, rs)"
    by (cases "run_commands get_chat h1 texts")
  from Cons.prems step rest have eq: "h2 = h'" "replies = r # rs" by simp_all
  from rest eq have rest': "run_commands get_chat h1 texts = (h', rs)" by simp
  note ih = Cons.IH [OF rest']
  note st = set_target_command_step(1,2) [OF step]
  have "default_recipients h' = last_writer (last_writer (default_recipients h) [r]) rs"
    using ih st(1) by simp
  then have a: "default_recipients h' = last_writer (default_recipients h) replies"
    unfolding eq(2) using last_writer_Cons [of "default_recipients h" r rs] by simp
  have b: "active_count (default_recipients h) = 1 \<longrightarrow> active_count (default_recipients h') = 1"
    using ih st(2) by blast
  from a b show ?case by blast
qed

text \<open>
  C9: after every sequence of \<open>/set_target\<close> commands run on a fresh handler, exactly
  one of the three non-custom targets is active, and the dictionary is the one left by
  the last command that succeeded in setting \<open>me\<close>, a channel or a group (the initial
  \<open>self\<close> when there was none). A command that sets a custom mapping leaves
  \<open>default_recipients\<close> as it was; reading the mapping is \<open>determine_recipient\<close>, a
  function without effect on the handler.
\<close>

theorem last_writer_wins:
  assumes "run_commands get_chat (init_handler mapping) texts = (h, replies)"
  shows "active_count (default_recipients h) = 1
         \<and> default_recipients h
             = last_writer \<lparr>me = Some ''self'', channel = None, group = None\<rparr> replies
         \<and> (\<forall>h0 t h1 d c. set_target_command get_chat h0 t = (h1, SetCustom d c)
               \<longrightarrow> default_recipients h1 = default_recipients h0)"
proof -
  have start: "active_count (default_recipients (init_handler mapping)) = 1"
    by (simp add: init_handler_def active_count_def py_truthy_def)
  have init: "default_recipients (init_handler mapping)
                = \<lparr>me = Some ''self'', channel = None, group = None\<rparr>"
    by (simp add: init_handler_def)
  note inv = run_commands_invariant [OF assms]
  have 1: "active_count (default_recipients h) = 1" using inv start by blast
  have 2: "default_recipients h
             = last_writer \<lparr>me = Some ''self'', channel = None, group = None\<rparr> replies"
    using inv init by simp
  have 3: "\<forall>h0 t h1 d c. set_target_command get_chat h0 t = (h1, SetCustom d c)
             \<longrightarrow> default_recipients h1 = default_recipients h0"
    using set_target_command_step(1) by fastforce
  from 1 2 3 show ?thesis by blast
qed

lemma py_int_examples:
  "py_int ''111'' = Inr 111"
  "py_int '' -1_000 '' = Inr (- 1000)"
  "py_int ''abc''
     = Inl (PyExc ValueError (''invalid literal for int() with base 10: ''
                               @ [CHR 0x27] @ ''abc'' @ [CHR 0x27]))"
  by code_simp+

lemma example_commands_run:
  "snd (run_commands example_get_chat (init_handler None)
     [''/set_target channel 111'', ''/set_target custom x.com=999'',
      ''/set_target group 5'', ''/set_target GROUP 222''])
   = [SetChat ''channel'' ''111'', SetCustom ''x.com'' ''999'',
      ChatError ''chat not found'', SetChat ''group'' ''222'']"
  "default_recipients (fst (run_commands example_get_chat (init_handler None)
     [''/set_target channel 111'', ''/set_target custom x.com=999'',
      ''/set_target group 5'', ''/set_target GROUP 222'']))
   = \<lparr>me = None, channel = None, group = Some ''222''\<rparr>"
  "target_mapping (fst (run_commands example_get_chat (init_handler None)
     [''/set_target channel 111'', ''/set_target custom x.com=999'',
      ''/set_target group 5'', ''/set_target GROUP 222''])) ''x.com'' = Some ''999''"
  by code_simp+

text \<open>Four commands: a channel, a custom mapping, a group that the client does not
  know, a group that it knows. The last successful writer is the group 222.\<close>

theorem last_writer_wins_witness:
  "active_count \<lparr>me = None, channel = None, group = Some ''222''\<rparr> = 1
   \<and> last_writer \<lparr>me = Some ''self'', channel = None, group = None\<rparr>
        [SetChat ''channel'' ''111'', SetCustom ''x.com'' ''999'',
         ChatError ''chat not found'', SetChat ''group'' ''222'']
      = \<lparr>me = None, channel = None, group = Some ''222''\<rparr>
   \<and> default_recipients (fst (run_commands example_get_chat (init_handler None)
        [''/set_target channel 111'', ''/set_target custom x.com=999'',
         ''/set_target group 5'', ''/set_target GROUP 222'']))
      = \<lparr>me = None, channel = None, group = Some ''222''\<rparr>"
proof -
  let ?texts = "[''/set_target channel 111'', ''/set_target custom x.com=999'',
                 ''/set_target group 5'', ''/set_target GROUP 222'']"
  let ?run = "run_commands example_get_chat (init_handler None) ?texts"
  have r: "?run = (fst ?run, snd ?run)" by simp
  note t = last_writer_wins [OF r]
  from t have a: "active_count (default_recipients (fst ?run)) = 1" by blast
  from t have b: "default_recipients (fst ?run)
                    = last_writer \<lparr>me = Some ''self'', channel = None, group = None\<rparr> (snd ?run)"
    by blast
  from a b show ?thesis
    by (simp only: example_commands_run)
qed

section \<open>The notification text\<close>

lemma badges_differ: "dns_badge_line True n \<noteq> dns_badge_line False n"
  by (simp add: dns_badge_line_def badge_ok_def badge_warn_def)

lemma notification_lines_shape:
  assumes "notification_lines self msg_id email meta = Inr ls"
  shows "\<exists>body_preview. extract_body_preview email = Inr body_preview
           \<and> ls = header_lines self msg_id meta @ dns_lines meta
                    @ preview_lines body_preview @ command_lines msg_id"
  using assms by (auto simp: notification_lines_def split: sum.splits)

lemma dns_lines_cases:
  "dns_lines meta =
     (case dns_report meta of
        Some (Report r) \<Rightarrow>
          if mx_records r = [] then []
          else if has_mx r
          then [label_dns @ badge_ok @ '' '' @ py_str_nat (length (mx_records r)) @ mx_suffix]
          else [label_dns @ badge_warn @ '' '' @ py_str_nat (length (mx_records r)) @ mx_suffix]
      | _ \<Rightarrow> [])"
  by (simp add: dns_lines_def dns_badge_line_def split: option.splits dns_info.splits)

text \<open>No report that the validator builds reaches the \<open>warn\<close> branch: its \<open>has_mx\<close> is
  false exactly when its MX list is empty, and then the guard skips the line.\<close>

lemma warn_badge_unreachable:
  assumes "validate_domain_mx r cfg now_iso d = Inr report"
  shows "dns_lines (meta\<lparr>dns_report := Some (Report report)\<rparr>)
           = (if has_mx report
              then [dns_badge_line True (length (mx_records report))] else [])"
  using validator_report_has_mx_iff [OF assms]
  by (simp add: dns_lines_def)

lemma nxdomain_report:
  "validate_domain_mx nxdomain_resolver None ''2024-01-01T00:00:00'' (Some ''x.com'')
     = Inr (initial_report ''x.com'' ''2024-01-01T00:00:00'')"
  by (simp add: validate_domain_mx_def validate_body_cases Let_def initial_report_def
        validation_target_def get_mx_records_def get_txt_records_def get_ns_records_def
        get_soa_record_def resolve_ptrs_def nxdomain_resolver_def)

text \<open>
  C8: every notification must carry a DNS badge line, \<open>warn\<close> with the MX count when
  \<open>has_mx\<close> is false. The code for a recipient domain that does not exist: the validator
  returns a report with \<open>has_mx\<close> false and no MX record, and the notification formatted
  with that report has no line that starts with the DNS label, so the \<open>warn\<close> badge that
  the code writes for this case is not shown.
\<close>

theorem warn_badge_missing_without_mx:
  "validate_domain_mx nxdomain_resolver None ''2024-01-01T00:00:00'' (Some ''x.com'')
     = Inr (initial_report ''x.com'' ''2024-01-01T00:00:00'')
   \<and> dns_report no_mx_metadata = Some (Report (initial_report ''x.com'' ''2024-01-01T00:00:00''))
   \<and> \<not> has_mx (initial_report ''x.com'' ''2024-01-01T00:00:00'')
   \<and> \<not> isl (notification_lines (init_handler None) ''msg_1'' example_email no_mx_metadata)
   \<and> badge_lines_in
        (projr (notification_lines (init_handler None) ''msg_1'' example_email no_mx_metadata)) = []"
proof -
  have "dns_report no_mx_metadata = Some (Report (initial_report ''x.com'' ''2024-01-01T00:00:00''))
   \<and> \<not> has_mx (initial_report ''x.com'' ''2024-01-01T00:00:00'')
   \<and> \<not> isl (notification_lines (init_handler None) ''msg_1'' example_email no_mx_metadata)
   \<and> badge_lines_in
        (projr (notification_lines (init_handler None) ''msg_1'' example_email no_mx_metadata)) = []"
    by code_simp
  with nxdomain_report show ?thesis by simp
qed

section \<open>Ingestion\<close>

lemma handle_message_parsed:
  assumes "incoming = Inr raw_email"
    and "message_from_bytes env raw_email = Inr email"
    and "ingested_metadata env email = Inr meta"
  shows "handle_message env self storage incoming =
     \<lparr>response = ''250 Message '' @ new_msg_id env @ '' accepted'',
      handler_after = self\<lparr>message_counter := message_counter self + 1\<rparr>,
      storage_after = snd (store_email storage (utcnow_timestamp env) (new_msg_id env) raw_email meta),
      stored = Some (fst (store_email storage (utcnow_timestamp env) (new_msg_id env) raw_email meta)),
      notified = Some (send_telegram_notification (tg_send_message env)
                         (self\<lparr>message_counter := message_counter self + 1\<rparr>)
                         (new_msg_id env) email meta),
      provisioned = Some (handle_dns_integration (cf_ensure_tmail_integration env) meta)\<rparr>"
  using assms
  by (auto simp: handle_message_def ingested_metadata_def Let_def
           split: sum.splits prod.splits)

lemma handle_message_unreadable_header:
  assumes "incoming = Inr raw_email"
    and "message_from_bytes env raw_email = Inr email"
    and "ingested_metadata env email = Inl e"
  shows "response (handle_message env self storage incoming)
           = ''451 Temporary processing error: '' @ exc_str e"
    and "storage_after (handle_message env self storage incoming) = storage"
  using assms
  by (auto simp: handle_message_def ingested_metadata_def Let_def split: sum.splits)

lemma validate_recipient_dns_ignores_transport:
  "validate_recipient_dns (env\<lparr>tg_send_message := send\<rparr>) d = validate_recipient_dns env d"
  by (simp add: validate_recipient_dns_def split: option.splits prod.splits sum.splits)

lemma ingested_metadata_ignores_transport:
  "ingested_metadata (env\<lparr>tg_send_message := send\<rparr>) email = ingested_metadata env email"
  by (simp add: ingested_metadata_def validate_recipient_dns_ignores_transport
           split: sum.splits)

lemma store_email_succeeds:
  assumes "redis storage = Some db" and "online db" and "0 < message_ttl storage"
  shows "fst (store_email storage now email_id raw_email meta)"
  using assms
  by (simp add: store_email_def pipeline_execute_def Let_def split: prod.splits)

lemma store_email_fails_offline:
  assumes "redis storage = Some db" and "\<not> online db"
  shows "store_email storage now email_id raw_email meta = (False, storage)"
  using assms
  by (simp add: store_email_def pipeline_execute_def)

text \<open>After a successful \<open>store_email\<close> both keys of the message hold what was written.\<close>

lemma stored_keys_present:
  assumes "fst (store_email storage now email_id raw_email meta)"
  shows "\<exists>db'. redis (snd (store_email storage now email_id raw_email meta)) = Some db'
           \<and> redis_get now db' (''email:raw:'' @ email_id) = Some (Pickled raw_email)
           \<and> redis_get now db' (''email:meta:'' @ email_id) = Some (Json meta)"
proof (cases "redis storage")
  case None
  with assms show ?thesis by (simp add: store_email_def)
next
  case (Some db)
  show ?thesis
  proof (cases "online db \<and> 0 < message_ttl storage")
    case True
    with Some show ?thesis
      by (simp add: store_email_def pipeline_execute_def redis_get_def
            cleanup_old_indexes_def zremrangebyscore_def Let_def
          split: option.splits)
  next
    case False
    with Some assms show ?thesis
      by (auto simp: store_email_def pipeline_execute_def Let_def split: if_splits)
  qed
qed

text \<open>When the call of the transport raises, the handler of
  \<open>_send_telegram_notification\<close> is what ends the function.\<close>

lemma send_exception_is_caught:
  assumes "determine_recipient self meta = (recipient_type, recipient_id)"
    and "recipient_id \<noteq> []"
    and "format_notification self msg_id email meta = Inr formatted_msg"
    and "(recipient_type = ''me'' \<and> target = SavedMessages)
         \<or> (recipient_type \<noteq> ''me'' \<and> py_int recipient_id = Inr n \<and> target = ChatId n)"
    and "send target formatted_msg = Inl e"
  shows "send_telegram_notification send self msg_id email meta = NotificationFailed e"
  using assms
  by (auto simp: send_telegram_notification_def send_telegram_notification_body_def)

lemma example_header_reads:
  "msg_get (msg_items example_email) ''From'' [] = Inr ''a@a.com''"
  "msg_get (msg_items example_email) ''To'' [] = Inr ''b@x.com''"
  "msg_get (msg_items example_email) ''Cc'' [] = Inr []"
  "msg_get (msg_items example_email) ''Bcc'' [] = Inr []"
  "msg_get (msg_items example_email) ''Subject'' [] = Inr ''hi''"
  "msg_get (msg_items example_email) ''Date'' [] = Inr []"
  by code_simp+

lemma example_items_dict:
  "items_dict example_email
     = Inr (map_of [(''Subject'', ''hi''), (''To'', ''b@x.com''), (''From'', ''a@a.com'')])"
  by (simp add: items_dict_def example_email_def bind_exc_def)

lemma example_ingested_metadata:
  "ingested_metadata (example_env send) example_email
     = Inr \<lparr>message_id = ''msg_1'', from_addr = ''a@a.com'', to_addr = ''b@x.com'',
            cc = [], bcc = [], subject = ''hi'', date = [], recipient_domain = ''x.com'',
            received_at = ''2024-01-01T00:00:00'',
            headers = map_of [(''Subject'', ''hi''), (''To'', ''b@x.com''), (''From'', ''a@a.com'')],
            dns_report = Some (NoValidator ''x.com'' ''Validator not available'')\<rparr>"
  by (simp add: ingested_metadata_def extract_metadata_def example_header_reads
        example_items_dict extract_domain_examples bind_exc_def validate_recipient_dns_def
        example_env_def)

text \<open>
  C1: a message whose store write raises must get the transient-failure response 451, and
  none may be accepted with 250 unless it was stored. The code at a store whose
  connection is down: the write raises inside \<open>store_email\<close>, which returns \<open>False\<close>;
  \<open>handle_message\<close> does not look at that value and answers 250, and the message is
  not in the store.
\<close>

theorem store_failure_still_accepted:
  "stored (handle_message (example_env delivering) (init_handler None) offline_storage
             (Inr ''From: a@a.com''))
     = Some False
   \<and> response (handle_message (example_env delivering) (init_handler None) offline_storage
                  (Inr ''From: a@a.com''))
     = ''250 Message msg_1 accepted''
   \<and> storage_after (handle_message (example_env delivering) (init_handler None) offline_storage
                       (Inr ''From: a@a.com''))
     = offline_storage
   \<and> retrieve_email (message_from_bytes (example_env delivering)) offline_storage 100 ''msg_1''
     = None"
proof -
  let ?env = "example_env delivering"
  obtain meta where meta: "ingested_metadata ?env example_email = Inr meta"
    using example_ingested_metadata by blast
  have p: "message_from_bytes ?env ''From: a@a.com'' = Inr example_email"
    by (simp add: example_env_def)
  have off: "redis offline_storage
               = Some \<lparr>strings = Map.empty, sets = Map.empty, zsets = Map.empty, online = False\<rparr>"
    by (simp add: offline_storage_def)
  have s: "store_email offline_storage (utcnow_timestamp ?env) (new_msg_id ?env)
             ''From: a@a.com'' meta = (False, offline_storage)"
    by (rule store_email_fails_offline [OF off]) simp
  have r: "retrieve_email (message_from_bytes ?env) offline_storage 100 ''msg_1'' = None"
    by (simp add: retrieve_email_def offline_storage_def pipeline_execute_def)
  from handle_message_parsed [OF refl p meta, of "init_handler None" offline_storage] s r
  show ?thesis by (simp add: example_env_def)
qed

text \<open>
  C4: for every message whose storage succeeded, when the handler calls the transport's
  send (a recipient is resolved, the text is formatted, the target is \<open>"me"\<close> or the
  numeric identifier) and that call raises \<open>e\<close>, the exception is caught: the
  notification ends as failed with \<open>e\<close>, the store is exactly as \<open>store_email\<close> left it,
  with the raw message and the metadata under their keys, and the response is the 250
  acceptance with the message id. Store and response are the same for every transport.
\<close>

theorem notification_failure_keeps_acceptance:
  assumes "incoming = Inr raw_email"
    and "message_from_bytes env raw_email = Inr email"
    and "ingested_metadata env email = Inr meta"
    and "fst (store_email storage (utcnow_timestamp env) (new_msg_id env) raw_email meta)"
    and "determine_recipient (self\<lparr>message_counter := message_counter self + 1\<rparr>) meta
           = (recipient_type, recipient_id)"
    and "recipient_id \<noteq> []"
    and "format_notification (self\<lparr>message_counter := message_counter self + 1\<rparr>)
           (new_msg_id env) email meta = Inr formatted_msg"
    and "(recipient_type = ''me'' \<and> target = SavedMessages)
         \<or> (recipient_type \<noteq> ''me'' \<and> py_int recipient_id = Inr n \<and> target = ChatId n)"
    and "tg_send_message env target formatted_msg = Inl e"
  shows "notified (handle_message env self storage incoming) = Some (NotificationFailed e)
         \<and> stored (handle_message env self storage incoming) = Some True
         \<and> storage_after (handle_message env self storage incoming)
             = snd (store_email storage (utcnow_timestamp env) (new_msg_id env) raw_email meta)
         \<and> (\<exists>db'. redis (storage_after (handle_message env self storage incoming)) = Some db'
               \<and> redis_get (utcnow_timestamp env) db' (''email:raw:'' @ new_msg_id env)
                   = Some (Pickled raw_email)
               \<and> redis_get (utcnow_timestamp env) db' (''email:meta:'' @ new_msg_id env)
                   = Some (Json meta))
         \<and> response (handle_message env self storage incoming)
             = ''250 Message '' @ new_msg_id env @ '' accepted''
         \<and> (\<forall>send. storage_after (handle_message (env\<lparr>tg_send_message := send\<rparr>)
                                     self storage incoming)
                       = storage_after (handle_message env self storage incoming)
                     \<and> response (handle_message (env\<lparr>tg_send_message := send\<rparr>)
                                   self storage incoming)
                       = response (handle_message env self storage incoming))"
proof -
  note h = handle_message_parsed [OF assms(1,2,3), of self storage]
  have caught: "send_telegram_notification (tg_send_message env)
                  (self\<lparr>message_counter := message_counter self + 1\<rparr>)
                  (new_msg_id env) email meta = NotificationFailed e"
    by (rule send_exception_is_caught
               [where send = "tg_send_message env" and target = target, OF assms(5,6,7,8,9)])
  note keys = stored_keys_present [OF assms(4)]
  have other: "\<forall>send. storage_after (handle_message (env\<lparr>tg_send_message := send\<rparr>)
                                     self storage incoming)
                       = storage_after (handle_message env self storage incoming)
                     \<and> response (handle_message (env\<lparr>tg_send_message := send\<rparr>)
                                   self storage incoming)
                       = response (handle_message env self storage incoming)"
  proof
    fix send
    have m: "ingested_metadata (env\<lparr>tg_send_message := send\<rparr>) email = Inr meta"
      using assms(3) by (simp add: ingested_metadata_ignores_transport)
    have p: "message_from_bytes (env\<lparr>tg_send_message := send\<rparr>) raw_email = Inr email"
      using assms(2) by simp
    from handle_message_parsed [OF assms(1) p m, of self storage] h
    show "storage_after (handle_message (env\<lparr>tg_send_message := send\<rparr>) self storage incoming)
            = storage_after (handle_message env self storage incoming)
          \<and> response (handle_message (env\<lparr>tg_send_message := send\<rparr>) self storage incoming)
            = response (handle_message env self storage incoming)"
      by simp
  qed
  have 1: "notified (handle_message env self storage incoming) = Some (NotificationFailed e)"
    using h caught by simp
  have 2: "stored (handle_message env self storage incoming) = Some True"
    using h assms(4) by simp
  have 3: "storage_after (handle_message env self storage incoming)
             = snd (store_email storage (utcnow_timestamp env) (new_msg_id env) raw_email meta)"
    using h by simp
  have 4: "\<exists>db'. redis (storage_after (handle_message env self storage incoming)) = Some db'
               \<and> redis_get (utcnow_timestamp env) db' (''email:raw:'' @ new_msg_id env)
                   = Some (Pickled raw_email)
               \<and> redis_get (utcnow_timestamp env) db' (''email:meta:'' @ new_msg_id env)
                   = Some (Json meta)"
    using keys unfolding 3 .
  have 5: "response (handle_message env self storage incoming)
             = ''250 Message '' @ new_msg_id env @ '' accepted''"
    using h by simp
  show ?thesis by (intro conjI 1 2 3 4 5 other)
qed

text \<open>The theorem at a transport that answers every call with a flood-wait error: the
  message goes to \<open>"me"\<close>, the send raises, and the message is accepted and stored.\<close>

theorem notification_failure_keeps_acceptance_witness:
  "message_from_bytes (example_env flood_wait) ''From: a@a.com'' = Inr example_email
   \<and> determine_recipient ((init_handler None)\<lparr>message_counter := 1\<rparr>)
        \<lparr>message_id = ''msg_1'', from_addr = ''a@a.com'', to_addr = ''b@x.com'',
         cc = [], bcc = [], subject = ''hi'', date = [], recipient_domain = ''x.com'',
         received_at = ''2024-01-01T00:00:00'',
         headers = map_of [(''Subject'', ''hi''), (''To'', ''b@x.com''), (''From'', ''a@a.com'')],
         dns_report = Some (NoValidator ''x.com'' ''Validator not available'')\<rparr>
       = (''me'', ''self'')
   \<and> notified (handle_message (example_env flood_wait) (init_handler None) empty_storage
                  (Inr ''From: a@a.com''))
       = Some (NotificationFailed (PyExc OtherError ''A wait of 30 seconds is required''))
   \<and> stored (handle_message (example_env flood_wait) (init_handler None) empty_storage
                (Inr ''From: a@a.com'')) = Some True
   \<and> response (handle_message (example_env flood_wait) (init_handler None) empty_storage
                  (Inr ''From: a@a.com''))
       = ''250 Message msg_1 accepted''"
proof -
  let ?env = "example_env flood_wait"
  let ?self = "(init_handler None)\<lparr>message_counter := message_counter (init_handler None) + 1\<rparr>"
  let ?meta = "\<lparr>message_id = ''msg_1'', from_addr = ''a@a.com'', to_addr = ''b@x.com'',
         cc = [], bcc = [], subject = ''hi'', date = [], recipient_domain = ''x.com'',
         received_at = ''2024-01-01T00:00:00'',
         headers = map_of [(''Subject'', ''hi''), (''To'', ''b@x.com''), (''From'', ''a@a.com'')],
         dns_report = Some (NoValidator ''x.com'' ''Validator not available'')\<rparr>"
  have p: "message_from_bytes ?env ''From: a@a.com'' = Inr example_email"
    by (simp add: example_env_def)
  have m: "ingested_metadata ?env example_email = Inr ?meta"
    by (rule example_ingested_metadata)
  have c: "redis empty_storage
             = Some \<lparr>strings = Map.empty, sets = Map.empty, zsets = Map.empty, online = True\<rparr>"
    by (simp add: empty_storage_def)
  have ok: "fst (store_email empty_storage (utcnow_timestamp ?env) (new_msg_id ?env)
                   ''From: a@a.com'' ?meta)"
    by (rule store_email_succeeds [OF c]) (simp_all add: empty_storage_def)
  have d: "determine_recipient ?self ?meta = (''me'', ''self'')"
    by (simp add: determine_recipient_def init_handler_def)
  have ne: "''self'' \<noteq> []" by simp
  obtain formatted where f: "format_notification ?self (new_msg_id ?env) example_email ?meta
                               = Inr formatted"
    by (simp add: format_notification_def notification_lines_def extract_body_preview_def
          is_multipart_def example_email_def bind_exc_def)
  have t: "(''me'' = ''me'' \<and> SavedMessages = SavedMessages)
           \<or> (''me'' \<noteq> ''me'' \<and> py_int ''self'' = Inr 0 \<and> SavedMessages = ChatId 0)"
    by simp
  have s: "tg_send_message ?env SavedMessages formatted
             = Inl (PyExc OtherError ''A wait of 30 seconds is required'')"
    by (simp add: example_env_def flood_wait_def)
  note th = notification_failure_keeps_acceptance
              [OF refl p m ok d ne f t s]
  have d': "determine_recipient ((init_handler None)\<lparr>message_counter := 1\<rparr>) ?meta
              = (''me'', ''self'')"
    by (simp add: determine_recipient_def init_handler_def)
  from th have 1: "notified (handle_message ?env (init_handler None) empty_storage
                               (Inr ''From: a@a.com''))
                     = Some (NotificationFailed (PyExc OtherError ''A wait of 30 seconds is required''))"
    by blast
  from th have 2: "stored (handle_message ?env (init_handler None) empty_storage
                             (Inr ''From: a@a.com'')) = Some True"
    by blast
  from th have "response (handle_message ?env (init_handler None) empty_storage
                            (Inr ''From: a@a.com''))
                  = ''250 Message '' @ new_msg_id ?env @ '' accepted''"
    by blast
  then have 3: "response (handle_message ?env (init_handler None) empty_storage
                            (Inr ''From: a@a.com''))
                  = ''250 Message msg_1 accepted''"
    by (simp add: example_env_def)
  show ?thesis by (intro conjI p d' 1 2 3)
qed

end
